theory Spec2Isabelle
  imports Main "HOL-Library.AList"
begin

section \<open>Python values used by \<open>lm_eval/models/optimum_habana_lm.py\<close>\<close>

text \<open>
  Exceptions are values: every function that can raise returns \<open>error + 'a\<close>, with
  \<open>Inl\<close> the exception.  \<open>FrameworkError\<close> stands for any exception raised inside
  the external libraries (transformers, optimum-habana, deepspeed, torch).
\<close>

datatype error = IndexError | AssertionError | ValueError | FrameworkError string

definition bindE :: "error + 'a \<Rightarrow> ('a \<Rightarrow> error + 'b) \<Rightarrow> error + 'b" where
  "bindE m f = (case m of Inl e \<Rightarrow> Inl e | Inr x \<Rightarrow> f x)"

text \<open>
  A token id attribute of a generation config (\<open>pad_token_id\<close>, \<open>eos_token_id\<close>,
  \<open>bos_token_id\<close>) is \<open>None\<close>, an \<open>int\<close> or a list of \<open>int\<close>.
\<close>

datatype py_id = IdNone | IdInt int | IdList "int list"

text \<open>
  The constructor's \<open>batch_size: Optional[Union[int, str]]\<close>.  The comparison
  \<open>args.batch_size == 1\<close> holds for the integer \<open>1\<close> only.
\<close>

datatype py_batch_size = BatchNone | BatchInt int | BatchStr string

datatype dtype = Float32 | BFloat16

text \<open>
  A Python \<open>float\<close> (\<open>penalty_alpha\<close>), as mantissa and binary exponent; this module
  only copies it.
\<close>

datatype pyfloat = PyFloat int int

text \<open>
  Python's \<open>sub in s\<close> on strings: \<open>sub\<close> occurs in \<open>s\<close> as a contiguous block.
\<close>

fun starts_with :: "string \<Rightarrow> string \<Rightarrow> bool" where
  "starts_with s [] = True"
| "starts_with [] (c # cs) = False"
| "starts_with (d # ds) (c # cs) = (d = c \<and> starts_with ds cs)"

fun str_contains :: "string \<Rightarrow> string \<Rightarrow> bool" where
  "str_contains sub [] = (sub = [])"
| "str_contains sub (c # cs) = (starts_with (c # cs) sub \<or> str_contains sub cs)"

section \<open>The configuration record \<open>Args\<close>\<close>

text \<open>
  The class attributes of \<open>Args\<close>, followed by the three attributes that
  \<open>setup_distributed\<close> creates.  Python has no \<open>local_rank\<close>, \<open>world_size\<close> or
  \<open>global_rank\<close> attribute on a fresh \<open>Args()\<close>; the record carries the fields from
  the start, and no function below reads them before \<open>setup_distributed\<close> has written them.
\<close>

record args =
  device :: string
  model_name_or_path :: string
  bf16 :: bool
  max_new_tokens :: int
  max_input_tokens :: int
  batch_size :: py_batch_size
  warmup :: int
  n_iterations :: int
  reuse_cache :: bool
  use_kv_cache :: bool
  use_hpu_graphs :: bool
  attn_softmax_bf16 :: bool
  limit_hpu_graphs :: bool
  do_sample :: bool
  torch_compile :: bool
  bucket_internal :: bool
  bucket_size :: int
  trust_remote_code :: bool
  num_beams :: int
  bad_words :: "string list option"
  force_words :: "string list option"
  token :: "string option"
  top_k :: "int option"
  num_return_sequences :: int
  trim_logits :: bool
  penalty_alpha :: "pyfloat option"
  reduce_recompile :: bool
  use_flash_attention :: bool
  flash_attention_recompute :: bool
  flash_attention_causal_mask :: bool
  flash_attention_fast_softmax :: bool
  model_revision :: string
  buckets :: "int list"
  local_rank :: int
  world_size :: int
  global_rank :: int

definition Args :: args where
  "Args = \<lparr> device = ''hpu'', model_name_or_path = '''', bf16 = True,
     max_new_tokens = 100, max_input_tokens = 0, batch_size = BatchInt 1, warmup = 0,
     n_iterations = 5, reuse_cache = True, use_kv_cache = True, use_hpu_graphs = True,
     attn_softmax_bf16 = True, limit_hpu_graphs = True, do_sample = True,
     torch_compile = False, bucket_internal = True, bucket_size = 128,
     trust_remote_code = True, num_beams = 1, bad_words = None, force_words = None,
     token = None, top_k = None, num_return_sequences = 1, trim_logits = True,
     penalty_alpha = None, reduce_recompile = False, use_flash_attention = True,
     flash_attention_recompute = False, flash_attention_causal_mask = False,
     flash_attention_fast_softmax = False, model_revision = ''main'',
     buckets = [16, 32, 64, 128, 189, 284, 384],
     local_rank = 0, world_size = 0, global_rank = 0 \<rparr>"

section \<open>Distributed set-up and the excluded HPU graph configurations\<close>

text \<open>
  \<open>os.getenv(key, default)\<close> over a snapshot of the process environment, and
  \<open>int(...)\<close> on the string read: the builtin is a parameter \<open>py_int\<close>, with \<open>None\<close>
  where it raises \<open>ValueError\<close>.  \<open>setup_distributed\<close> mutates \<open>args\<close> in place, so
  the model returns the record as it stands when the function returns or raises.
\<close>

definition os_getenv :: "(string \<rightharpoonup> string) \<Rightarrow> string \<Rightarrow> string \<Rightarrow> string" where
  "os_getenv env key dflt = (case env key of None \<Rightarrow> dflt | Some v \<Rightarrow> v)"

definition setup_distributed ::
  "(string \<Rightarrow> int option) \<Rightarrow> (string \<rightharpoonup> string) \<Rightarrow> args \<Rightarrow> args \<times> error option" where
  "setup_distributed py_int env a =
     (case py_int (os_getenv env ''LOCAL_RANK'' ''0'') of
        None \<Rightarrow> (a, Some ValueError)
      | Some lr \<Rightarrow>
         (case py_int (os_getenv env ''WORLD_SIZE'' ''0'') of
            None \<Rightarrow> (a\<lparr>local_rank := lr\<rparr>, Some ValueError)
          | Some ws \<Rightarrow>
             (case py_int (os_getenv env ''RANK'' ''0'') of
                None \<Rightarrow> (a\<lparr>local_rank := lr, world_size := ws\<rparr>, Some ValueError)
              | Some gr \<Rightarrow>
                 (a\<lparr>local_rank := lr, world_size := ws, global_rank := gr\<rparr>, None))))"

definition exclude_hpu_graph_configs :: "args \<Rightarrow> bool" where
  "exclude_hpu_graph_configs a =
     (if batch_size a = BatchInt 1 \<and> limit_hpu_graphs a then
        (if str_contains ''falcon-180B'' (model_name_or_path a)
            \<or> str_contains ''falcon-180b'' (model_name_or_path a) then False
         else if (world_size a = 2 \<or> world_size a = 4 \<or> world_size a = 8)
                 \<and> (max_input_tokens a \<ge> 4096 \<and> max_new_tokens a \<ge> 128) then False
         else True)
      else False)"

section \<open>Model, generation configuration and tokenizer\<close>

text \<open>
  What this module reads and writes of the objects the external libraries hand over:
  \<open>model.config\<close>, \<open>model.generation_config\<close> and the tokenizer's special tokens.
  The fields of the generation configuration carry the prefix \<open>gc_\<close>, since most
  of them share their name with a field of \<open>Args\<close>.
\<close>

record model_config =
  model_type :: string
  is_encoder_decoder :: bool
  pad_token_id :: "int option"

record generation_config =
  gc_pad_token_id :: py_id
  gc_eos_token_id :: py_id
  gc_bos_token_id :: py_id
  gc_max_new_tokens :: int
  gc_use_cache :: bool
  gc_static_shapes :: bool
  gc_bucket_size :: int
  gc_bucket_internal :: bool
  gc_do_sample :: bool
  gc_num_beams :: int
  gc_top_k :: "int option"
  gc_penalty_alpha :: "pyfloat option"
  gc_bad_words_ids :: "int list list option"
  gc_force_words_ids :: "int list list option"
  gc_num_return_sequences :: int
  gc_trim_logits :: bool
  gc_attn_softmax_bf16 :: bool
  gc_limit_hpu_graphs :: bool
  gc_reuse_cache :: bool
  gc_reduce_recompile :: bool
  gc_use_flash_attention :: bool
  gc_flash_attention_recompute :: bool
  gc_flash_attention_causal_mask :: bool
  gc_flash_attention_fast_softmax :: bool
  gc_trust_remote_code :: bool
  gc_valid_sequence_lengths :: "int list option"

record hf_model =
  config :: model_config
  generation_config :: generation_config

text \<open>
  A tokenizer's special tokens are optional strings; \<open>tokenizer.pad_token = v\<close> stores
  \<open>v\<close> and \<open>tokenizer.pad_token\<close> reads it back.  The id attributes
  (\<open>pad_token_id\<close>, ...) are computed by the tokenizer from its vocabulary, which this
  module never sees: assigning and reading them goes through the library below.
\<close>

record tokenizer =
  padding_side :: string
  pad_token :: "string option"
  eos_token :: "string option"
  bos_token :: "string option"

record tokenizer_kwargs =
  kw_revision :: string
  kw_token :: "string option"
  kw_trust_remote_code :: bool
  kw_add_prefix_space :: "bool option"

text \<open>
  The external calls, as parameters.
  \<^item> \<open>py_int\<close>: the builtin \<open>int\<close> on a string, \<open>None\<close> for \<open>ValueError\<close>;
  \<^item> \<open>accelerator_setup\<close>: \<open>setup_env\<close> and \<open>setup_device\<close>, which read \<open>args\<close>,
    write \<open>os.environ\<close> and import the accelerator's modules; \<open>Some e\<close> when they raise;
  \<^item> \<open>setup_model\<close>, \<open>setup_distributed_model\<close>: the two model loaders, which read
    \<open>args\<close> only;
  \<^item> \<open>model_is_optimized\<close>: from \<open>optimum.habana.checkpoint_utils\<close>;
  \<^item> \<open>from_pretrained\<close>: \<open>AutoTokenizer.from_pretrained\<close>;
  \<^item> \<open>token_of_id t v\<close>: the token that tokenizer \<open>t\<close> stores when one of its id
    attributes is assigned \<open>v\<close>; \<open>id_of_token t s\<close>: the id read back for token \<open>s\<close>;
  \<^item> \<open>decode\<close>, \<open>encode\<close>: \<open>tokenizer.decode\<close> (a string, or an exception) and
    \<open>tokenizer.encode(..., add_special_tokens=False)\<close>;
  \<^item> \<open>HFLM_init\<close>: the constructor of the base class \<open>HFLM\<close>.
\<close>

record ext =
  py_int :: "string \<Rightarrow> int option"
  accelerator_setup :: "args \<Rightarrow> error option"
  setup_model :: "args \<Rightarrow> dtype \<Rightarrow> error + hf_model"
  setup_distributed_model :: "args \<Rightarrow> dtype \<Rightarrow> error + hf_model"
  model_is_optimized :: "model_config \<Rightarrow> bool"
  from_pretrained :: "string \<Rightarrow> tokenizer_kwargs \<Rightarrow> error + tokenizer"
  token_of_id :: "tokenizer \<Rightarrow> py_id \<Rightarrow> error + string option"
  id_of_token :: "tokenizer \<Rightarrow> string option \<Rightarrow> py_id"
  decode :: "tokenizer \<Rightarrow> py_id \<Rightarrow> error + string"
  encode :: "tokenizer \<Rightarrow> string \<Rightarrow> int list"
  HFLM_init :: "hf_model \<Rightarrow> tokenizer \<Rightarrow> py_batch_size \<Rightarrow> error option"

section \<open>\<open>setup_tokenizer\<close>\<close>

text \<open>\<open>xs[0]\<close> and \<open>xs[-1]\<close> on a Python list: \<open>IndexError\<close> on the empty list.\<close>

definition py_first :: "'a list \<Rightarrow> error + 'a" where
  "py_first xs = (case xs of [] \<Rightarrow> Inl IndexError | x # _ \<Rightarrow> Inr x)"

definition py_last :: "'a list \<Rightarrow> error + 'a" where
  "py_last xs = (if xs = [] then Inl IndexError else Inr (last xs))"

text \<open>
  Lines 152 to 156: for llama, a missing \<open>pad_token_id\<close> of the generation
  configuration becomes the \<open>eos_token_id\<close>, or its first element when it is a list.
\<close>

definition llama_pad_token_id :: "generation_config \<Rightarrow> error + generation_config" where
  "llama_pad_token_id g =
     (if gc_pad_token_id g = IdNone then
        (case gc_eos_token_id g of
           IdInt i \<Rightarrow> Inr (g\<lparr>gc_pad_token_id := IdInt i\<rparr>)
         | IdList xs \<Rightarrow> bindE (py_first xs) (\<lambda>x. Inr (g\<lparr>gc_pad_token_id := IdInt x\<rparr>))
         | IdNone \<Rightarrow> Inr g)
      else Inr g)"

text \<open>Lines 158 to 161: the tokenizer's \<open>eos_token_id\<close>, for llama.\<close>

definition llama_eos_token :: "ext \<Rightarrow> generation_config \<Rightarrow> tokenizer \<Rightarrow> error + tokenizer" where
  "llama_eos_token lib g t =
     (case gc_eos_token_id g of
        IdInt i \<Rightarrow> bindE (token_of_id lib t (IdInt i)) (\<lambda>s. Inr (t\<lparr>eos_token := s\<rparr>))
      | IdList xs \<Rightarrow>
          bindE (py_first xs) (\<lambda>x.
          bindE (token_of_id lib t (IdInt x)) (\<lambda>s. Inr (t\<lparr>eos_token := s\<rparr>)))
      | IdNone \<Rightarrow> Inr t)"

text \<open>
  Lines 162 to 165 and 170 to 173: the pad token id is assigned, and the three special
  tokens are replaced by the decoded text of their ids.
\<close>

definition decode_special_tokens :: "ext \<Rightarrow> py_id \<Rightarrow> tokenizer \<Rightarrow> error + tokenizer" where
  "decode_special_tokens lib pad_id t =
     bindE (token_of_id lib t pad_id) (\<lambda>s.
     let t1 = t\<lparr>pad_token := s\<rparr> in
     bindE (decode lib t1 (id_of_token lib t1 (pad_token t1))) (\<lambda>p.
     let t2 = t1\<lparr>pad_token := Some p\<rparr> in
     bindE (decode lib t2 (id_of_token lib t2 (eos_token t2))) (\<lambda>e.
     let t3 = t2\<lparr>eos_token := Some e\<rparr> in
     bindE (decode lib t3 (id_of_token lib t3 (bos_token t3))) (\<lambda>b.
     Inr (t3\<lparr>bos_token := Some b\<rparr>)))))"

definition setup_tokenizer_llama ::
  "ext \<Rightarrow> tokenizer \<Rightarrow> hf_model \<Rightarrow> error + tokenizer \<times> hf_model" where
  "setup_tokenizer_llama lib t m =
     bindE (llama_pad_token_id (generation_config m)) (\<lambda>g.
     bindE (token_of_id lib t (gc_bos_token_id g)) (\<lambda>s.
     bindE (llama_eos_token lib g (t\<lparr>bos_token := s\<rparr>)) (\<lambda>t1.
     bindE (decode_special_tokens lib (gc_pad_token_id g) t1) (\<lambda>t2.
     Inr (t2, m\<lparr>generation_config := g\<rparr>)))))"

definition setup_tokenizer_persimmon ::
  "ext \<Rightarrow> tokenizer \<Rightarrow> hf_model \<Rightarrow> error + tokenizer \<times> hf_model" where
  "setup_tokenizer_persimmon lib t m =
     (let g = (generation_config m)\<lparr>gc_pad_token_id := gc_eos_token_id (generation_config m)\<rparr> in
      bindE (token_of_id lib t (gc_bos_token_id g)) (\<lambda>s.
      let t1 = t\<lparr>bos_token := s\<rparr> in
      bindE (token_of_id lib t1 (gc_eos_token_id g)) (\<lambda>s'.
      bindE (decode_special_tokens lib (gc_pad_token_id g) (t1\<lparr>eos_token := s'\<rparr>)) (\<lambda>t2.
      Inr (t2, m\<lparr>generation_config := g\<rparr>)))))"

text \<open>Lines 176 and 177: MiniCPM3 keeps the last element of a list of EOS ids.\<close>

definition minicpm3_eos_token_id :: "hf_model \<Rightarrow> error + hf_model" where
  "minicpm3_eos_token_id m =
     (case gc_eos_token_id (generation_config m) of
        IdList xs \<Rightarrow>
          (if model_type (config m) = ''minicpm3'' then
             bindE (py_last xs) (\<lambda>x.
             Inr (m\<lparr>generation_config := (generation_config m)\<lparr>gc_eos_token_id := IdInt x\<rparr>\<rparr>))
           else Inr m)
      | _ \<Rightarrow> Inr m)"

text \<open>Lines 180 to 182: a tokenizer without a pad token takes its EOS token.\<close>

definition default_pad_token :: "tokenizer \<times> hf_model \<Rightarrow> tokenizer \<times> hf_model" where
  "default_pad_token tm =
     (case tm of (t, m) \<Rightarrow>
        if pad_token t = None then
          (t\<lparr>pad_token := eos_token t\<rparr>,
           m\<lparr>generation_config :=
               (generation_config m)\<lparr>gc_pad_token_id := gc_eos_token_id (generation_config m)\<rparr>\<rparr>)
        else (t, m))"

definition setup_tokenizer :: "ext \<Rightarrow> args \<Rightarrow> hf_model \<Rightarrow> error + tokenizer \<times> hf_model" where
  "setup_tokenizer lib a m =
     (let tokenizer_kwargs =
            \<lparr> kw_revision = model_revision a, kw_token = token a,
              kw_trust_remote_code = trust_remote_code a,
              kw_add_prefix_space =
                (if bad_words a \<noteq> None \<or> force_words a \<noteq> None then Some True else None) \<rparr>
      in
      bindE (from_pretrained lib (model_name_or_path a) tokenizer_kwargs) (\<lambda>t0.
      let t1 = (if \<not> is_encoder_decoder (config m) then t0\<lparr>padding_side := ''left''\<rparr> else t0) in
      bindE (if model_type (config m) = ''llama'' then setup_tokenizer_llama lib t1 m
             else Inr (t1, m)) (\<lambda>(t2, m2).
      bindE (if model_type (config m2) = ''persimmon'' then setup_tokenizer_persimmon lib t2 m2
             else Inr (t2, m2)) (\<lambda>(t3, m3).
      bindE (minicpm3_eos_token_id m3) (\<lambda>m4.
      Inr (default_pad_token (t3, m4)))))))"

section \<open>\<open>setup_generation_config\<close>\<close>

text \<open>
  The model's generation configuration is copied and overlaid with fields of \<open>args\<close>,
  in the order of the source; the assertion sits between the assignment of
  \<open>reduce_recompile\<close> and that of \<open>use_flash_attention\<close>.
\<close>

definition setup_generation_config ::
  "ext \<Rightarrow> args \<Rightarrow> hf_model \<Rightarrow> tokenizer \<Rightarrow> error + generation_config" where
  "setup_generation_config lib a m t =
     (let bad_words_ids = map_option (map (encode lib t)) (bad_words a);
          force_words_ids = map_option (map (encode lib t)) (force_words a);
          is_optimized = model_is_optimized lib (config m);
          g = (generation_config m)
                \<lparr> gc_max_new_tokens := max_new_tokens a,
                  gc_use_cache := use_kv_cache a,
                  gc_static_shapes := is_optimized,
                  gc_bucket_size := (if is_optimized then bucket_size a else - 1),
                  gc_bucket_internal := bucket_internal a,
                  gc_do_sample := do_sample a,
                  gc_num_beams := num_beams a,
                  gc_top_k := top_k a,
                  gc_penalty_alpha := penalty_alpha a,
                  gc_bad_words_ids := bad_words_ids,
                  gc_force_words_ids := force_words_ids,
                  gc_num_return_sequences := num_return_sequences a,
                  gc_trim_logits := trim_logits a,
                  gc_attn_softmax_bf16 := attn_softmax_bf16 a,
                  gc_limit_hpu_graphs := limit_hpu_graphs a,
                  gc_reuse_cache := reuse_cache a,
                  gc_reduce_recompile := reduce_recompile a \<rparr>
      in
      if gc_reduce_recompile g \<and> \<not> gc_bucket_size g > 0 then Inl AssertionError
      else Inr (g\<lparr> gc_use_flash_attention := use_flash_attention a,
                   gc_flash_attention_recompute := flash_attention_recompute a,
                   gc_flash_attention_causal_mask := flash_attention_causal_mask a,
                   gc_flash_attention_fast_softmax := flash_attention_fast_softmax a,
                   gc_trust_remote_code := trust_remote_code a,
                   gc_valid_sequence_lengths := None \<rparr>))"

section \<open>\<open>initialize_model\<close>\<close>

text \<open>
  \<open>args\<close> is a mutable object: the first component of the result is \<open>args\<close> as the
  call leaves it, whether it returns or raises; the second is the exception or the
  triple returned.  \<open>torch.float\<close> is \<open>Float32\<close>.
\<close>

definition initialize_model ::
  "ext \<Rightarrow> (string \<rightharpoonup> string) \<Rightarrow> args
     \<Rightarrow> args \<times> (error + hf_model \<times> tokenizer \<times> generation_config)" where
  "initialize_model lib env a =
     (case setup_distributed (py_int lib) env a of
        (a1, Some e) \<Rightarrow> (a1, Inl e)
      | (a1, None) \<Rightarrow>
          (let a2 = (if exclude_hpu_graph_configs a1 then a1\<lparr>limit_hpu_graphs := False\<rparr> else a1)
           in case accelerator_setup lib a2 of
                Some e \<Rightarrow> (a2, Inl e)
              | None \<Rightarrow>
                  (let use_deepspeed = world_size a2 > 0;
                       model_dtype = (if use_deepspeed \<or> bf16 a2 then BFloat16 else Float32);
                       a3 = (if use_deepspeed \<or> bf16 a2 then a2
                             else a2\<lparr>attn_softmax_bf16 := False\<rparr>)
                   in (a3,
                       bindE (if \<not> use_deepspeed then setup_model lib a3 model_dtype
                              else setup_distributed_model lib a3 model_dtype) (\<lambda>m.
                       bindE (setup_tokenizer lib a3 m) (\<lambda>(t, m').
                       bindE (setup_generation_config lib a3 m' t) (\<lambda>g.
                       Inr (m', t, g))))))))"

section \<open>The wrapper \<open>OptimumHabanaLM\<close>\<close>

text \<open>
  The attributes the constructor sets: \<open>self._model\<close>, \<open>self.tokenizer\<close>,
  \<open>self.generation_config\<close>, \<open>self._device\<close>, \<open>self.buckets\<close> and the dictionary
  \<open>self.model_inputs\<close>, an association list in insertion order.
\<close>

record optimum_habana_lm =
  self_model :: hf_model
  self_tokenizer :: tokenizer
  self_generation_config :: generation_config
  self_device :: string
  self_buckets :: "int list"
  self_model_inputs :: "(string \<times> bool) list"

text \<open>Lines 313 to 337: the keyword arguments of every forward call.\<close>

definition build_model_inputs :: "hf_model \<Rightarrow> generation_config \<Rightarrow> (string \<times> bool) list" where
  "build_model_inputs m g =
     (let mt = model_type (config m);
          i0 = [(''use_cache'', gc_use_cache g)];
          i1 = (if mt \<in> set [''llama'', ''mistral'', ''falcon'', ''phi'', ''mixtral'', ''qwen2'',
                              ''gptj'', ''starcoder2'', ''gemma'', ''baichuan'']
                then AList.update ''reuse_cache'' (gc_reuse_cache g) i0 else i0)
      in
      if mt \<in> set [''llama'', ''mistral'', ''qwen2'', ''falcon'', ''starcoder2'', ''gemma'',
                    ''baichuan''] then
        (let i2 = (if mt \<noteq> ''falcon''
                   then AList.update ''attn_softmax_bf16'' (gc_attn_softmax_bf16 g) i1 else i1)
         in AList.update ''flash_attention_causal_mask'' (gc_flash_attention_causal_mask g)
              (AList.update ''flash_attention_recompute'' (gc_flash_attention_recompute g)
                 (AList.update ''use_flash_attention'' (gc_use_flash_attention g) i2)))
      else i1)"

text \<open>
  Lines 307 to 337, after \<open>initialize_model\<close> and the base class constructor:
  \<open>sorted(args.buckets)\<close> is \<open>sort\<close> on a list of integers.
\<close>

definition new_wrapper ::
  "args \<Rightarrow> hf_model \<Rightarrow> tokenizer \<Rightarrow> generation_config \<Rightarrow> optimum_habana_lm" where
  "new_wrapper a m t g =
     \<lparr> self_model = m, self_tokenizer = t, self_generation_config = g,
       self_device = device a, self_buckets = sort (buckets a),
       self_model_inputs = build_model_inputs m g \<rparr>"

text \<open>
  The constructor.  \<open>parser\<close> is the optional ready-made \<open>args\<close>; \<open>kw\<close> is
  \<open>Args()\<close> after the loop that sets one attribute for each keyword argument.
\<close>

definition OptimumHabanaLM_init ::
  "ext \<Rightarrow> (string \<rightharpoonup> string) \<Rightarrow> string \<Rightarrow> py_batch_size \<Rightarrow> args option \<Rightarrow> args
     \<Rightarrow> error + optimum_habana_lm" where
  "OptimumHabanaLM_init lib env pretrained bsz parser kw =
     (let a0 = (case parser of
                  Some p \<Rightarrow> p
                | None \<Rightarrow> kw\<lparr>model_name_or_path := pretrained, batch_size := bsz\<rparr>)
      in case initialize_model lib env a0 of
           (a, Inl e) \<Rightarrow> Inl e
         | (a, Inr (m, t, g)) \<Rightarrow>
             (case HFLM_init lib m t (batch_size a) of
                Some e \<Rightarrow> Inl e
              | None \<Rightarrow> Inr (new_wrapper a m t g)))"

text \<open>The property \<open>max_length\<close>: \<open>self.buckets[-1]\<close>.\<close>

definition max_length :: "optimum_habana_lm \<Rightarrow> error + int" where
  "max_length self = py_last (self_buckets self)"

text \<open>\<open>find_bucket\<close>: the first element of the list comprehension.\<close>

definition find_bucket :: "optimum_habana_lm \<Rightarrow> int \<Rightarrow> error + int" where
  "find_bucket self len = py_first (filter (\<lambda>b. b \<ge> len) (self_buckets self))"

section \<open>Tensors and the forward pass\<close>

text \<open>
  A batch of token ids is a two-dimensional tensor, the logits a three-dimensional one
  with a dtype.  The shape is carried beside the data, since a tensor with no row still
  has a sequence length.  The values of the logits are of an arbitrary type \<open>'v\<close>: this
  module only moves, slices and converts them.
\<close>

record tensor2 =
  t_bs :: nat
  t_seq :: nat
  t_rows :: "int list list"

record 'v tensor3 =
  l_bs :: nat
  l_seq :: nat
  l_vocab :: nat
  l_dtype :: dtype
  l_data :: "'v list list list"

text \<open>
  A tensor is well formed when its data has the shape it carries: \<open>bs\<close> rows of
  \<open>seq\<close> positions, and for logits \<open>vocab\<close> values at every position.
\<close>

definition wf_batch :: "tensor2 \<Rightarrow> bool" where
  "wf_batch x \<longleftrightarrow> length (t_rows x) = t_bs x \<and> (\<forall>r \<in> set (t_rows x). length r = t_seq x)"

definition wf_logits :: "'v tensor3 \<Rightarrow> bool" where
  "wf_logits lg \<longleftrightarrow>
     length (l_data lg) = l_bs lg
     \<and> (\<forall>row \<in> set (l_data lg). length row = l_seq lg \<and> (\<forall>v \<in> set row. length v = l_vocab lg))"

text \<open>
  \<open>F.pad(inps, (0, p), value=v)\<close>: \<open>p\<close> positions are appended to the last dimension
  and filled with \<open>v\<close> (\<open>0\<close> when \<open>v\<close> is \<open>None\<close>); a negative \<open>p\<close> crops instead.
\<close>

definition F_pad :: "tensor2 \<Rightarrow> int \<Rightarrow> int option \<Rightarrow> tensor2" where
  "F_pad x p v =
     (if p \<ge> 0 then
        x\<lparr> t_seq := t_seq x + nat p,
           t_rows := map (\<lambda>r. r @ replicate (nat p) (case v of None \<Rightarrow> 0 | Some i \<Rightarrow> i)) (t_rows x) \<rparr>
      else
        x\<lparr> t_seq := t_seq x - nat (- p),
           t_rows := map (\<lambda>r. take (length r - nat (- p)) r) (t_rows x) \<rparr>)"

text \<open>
  A Python slice \<open>[:stop]\<close> of a dimension of size \<open>n\<close> keeps the first
  \<open>py_slice_to stop n\<close> positions: a negative \<open>stop\<close> counts from the end, and the
  result is clamped to the dimension.  In particular \<open>[:-0]\<close> is \<open>[:0]\<close> and keeps
  nothing.
\<close>

definition py_slice_to :: "int \<Rightarrow> nat \<Rightarrow> nat" where
  "py_slice_to stop n = (if stop < 0 then nat (int n + stop) else min (nat stop) n)"

text \<open>\<open>logits[:, :-p, :]\<close>: the slice \<open>[:-p]\<close> of the sequence dimension.\<close>

definition strip_padding :: "'v tensor3 \<Rightarrow> int \<Rightarrow> 'v tensor3" where
  "strip_padding lg p =
     lg\<lparr> l_seq := py_slice_to (- p) (l_seq lg),
         l_data := map (\<lambda>row. take (py_slice_to (- p) (length row)) row) (l_data lg) \<rparr>"

definition to_dtype :: "dtype \<Rightarrow> 'v tensor3 \<Rightarrow> 'v tensor3" where
  "to_dtype d lg = lg\<lparr> l_dtype := d \<rparr>"

text \<open>
  The two calls this module makes on the model object, in a log.  The runtime is a
  parameter: \<open>allocate_kv_cache\<close> may raise, and \<open>forward\<close>, which may depend on the
  calls made before it, returns the logits or raises.
\<close>

datatype runtime_call =
  is_allocation: AllocateKvCache nat int int
| is_forward: Forward tensor2 "(string \<times> bool) list"

record 'v model_runtime =
  allocate_kv_cache :: "nat \<Rightarrow> int \<Rightarrow> int \<Rightarrow> error option"
  forward :: "runtime_call list \<Rightarrow> tensor2 \<Rightarrow> (string \<times> bool) list \<Rightarrow> error + 'v tensor3"

text \<open>Lines 355 to 360: the model is called, the padding stripped, the dtype converted.\<close>

definition run_model ::
  "'v model_runtime \<Rightarrow> optimum_habana_lm \<Rightarrow> runtime_call list \<Rightarrow> tensor2 \<Rightarrow> int
     \<Rightarrow> runtime_call list \<times> (error + 'v tensor3)" where
  "run_model rt self log inps padding_length =
     (log @ [Forward inps (self_model_inputs self)],
      bindE (forward rt log inps (self_model_inputs self)) (\<lambda>logits.
      let logits1 = (if gc_static_shapes (self_generation_config self) \<and> padding_length > 0
                     then strip_padding logits padding_length else logits)
      in Inr (to_dtype Float32 logits1)))"

text \<open>
  \<open>_model_call\<close>: the result is the log of the calls made on the model and the value
  returned or the exception raised.
\<close>

definition model_call ::
  "'v model_runtime \<Rightarrow> optimum_habana_lm \<Rightarrow> tensor2
     \<Rightarrow> runtime_call list \<times> (error + 'v tensor3)" where
  "model_call rt self inps =
     (let bs = t_bs inps; seq_length = int (t_seq inps) in
      if gc_static_shapes (self_generation_config self) then
        (case find_bucket self seq_length of
           Inl e \<Rightarrow> ([], Inl e)
         | Inr bucket_length \<Rightarrow>
             (let cached = (gc_use_cache (self_generation_config self)
                            \<and> gc_reuse_cache (self_generation_config self));
                  log = (if cached then [AllocateKvCache bs (bucket_length + 1) bucket_length]
                         else []);
                  raised = (if cached
                            then allocate_kv_cache rt bs (bucket_length + 1) bucket_length
                            else None)
              in case raised of
                   Some e \<Rightarrow> (log, Inl e)
                 | None \<Rightarrow>
                     (let padding_length = bucket_length - seq_length
                      in run_model rt self log
                           (F_pad inps padding_length (pad_token_id (config (self_model self))))
                           padding_length)))
      else run_model rt self [] inps 0)"

section \<open>Concrete objects for running the definitions\<close>

text \<open>
  A GPT-2 style model (no pad token, one EOS id), its tokenizer, a tokenizer with no
  special token at all, a library whose calls all succeed, a runtime that returns two
  logits for every input position, and one whose cache allocation raises.
\<close>

definition gpt2_generation_config :: generation_config where
  "gpt2_generation_config =
     \<lparr> gc_pad_token_id = IdNone, gc_eos_token_id = IdInt 50256, gc_bos_token_id = IdInt 50256,
       gc_max_new_tokens = 20, gc_use_cache = True, gc_static_shapes = False,
       gc_bucket_size = - 1, gc_bucket_internal = False, gc_do_sample = False,
       gc_num_beams = 1, gc_top_k = Some 50, gc_penalty_alpha = None,
       gc_bad_words_ids = None, gc_force_words_ids = None, gc_num_return_sequences = 1,
       gc_trim_logits = False, gc_attn_softmax_bf16 = False, gc_limit_hpu_graphs = False,
       gc_reuse_cache = False, gc_reduce_recompile = False, gc_use_flash_attention = False,
       gc_flash_attention_recompute = False, gc_flash_attention_causal_mask = False,
       gc_flash_attention_fast_softmax = False, gc_trust_remote_code = False,
       gc_valid_sequence_lengths = None \<rparr>"

definition gpt2_model :: hf_model where
  "gpt2_model =
     \<lparr> config = \<lparr> model_type = ''gpt2'', is_encoder_decoder = False, pad_token_id = None \<rparr>,
       generation_config = gpt2_generation_config \<rparr>"

definition llama_model :: hf_model where
  "llama_model =
     \<lparr> config = \<lparr> model_type = ''llama'', is_encoder_decoder = False, pad_token_id = None \<rparr>,
       generation_config =
         gpt2_generation_config\<lparr> gc_eos_token_id := IdList [2, 7], gc_bos_token_id := IdInt 1 \<rparr> \<rparr>"

definition unoptimized_model :: hf_model where
  "unoptimized_model = gpt2_model\<lparr> config := (config gpt2_model)\<lparr> model_type := ''bert'' \<rparr> \<rparr>"

definition gpt2_tokenizer :: tokenizer where
  "gpt2_tokenizer =
     \<lparr> padding_side = ''right'', pad_token = None, eos_token = Some ''<eos>'',
       bos_token = Some ''<eos>'' \<rparr>"

definition bare_tokenizer :: tokenizer where
  "bare_tokenizer =
     \<lparr> padding_side = ''right'', pad_token = None, eos_token = None, bos_token = None \<rparr>"

definition example_lib :: ext where
  "example_lib =
     \<lparr> py_int = map_of [(''0'', 0), (''1'', 1), (''2'', 2), (''4'', 4), (''8'', 8)],
       accelerator_setup = (\<lambda>a. None),
       setup_model = (\<lambda>a d. Inr gpt2_model),
       setup_distributed_model = (\<lambda>a d. Inr gpt2_model),
       model_is_optimized = (\<lambda>c. model_type c \<in> set [''gpt2'', ''llama'']),
       from_pretrained = (\<lambda>name kw. Inr gpt2_tokenizer),
       token_of_id = (\<lambda>t i. case i of IdInt n \<Rightarrow> Inr (Some (if n = 1 then ''<bos>'' else ''<eos>''))
                                | IdNone \<Rightarrow> Inr None
                                | IdList xs \<Rightarrow> Inl (FrameworkError ''unhashable'')),
       id_of_token = (\<lambda>t s. case s of None \<Rightarrow> IdNone
                                | Some w \<Rightarrow> IdInt (if w = ''<bos>'' then 1 else 2)),
       decode = (\<lambda>t i. case i of IdInt n \<Rightarrow> Inr (if n = 1 then ''<bos>'' else ''<eos>'')
                           | _ \<Rightarrow> Inl (FrameworkError ''TypeError'')),
       encode = (\<lambda>t w. map of_char w),
       HFLM_init = (\<lambda>m t b. None) \<rparr>"

definition bare_lib :: ext where
  "bare_lib = example_lib\<lparr> from_pretrained := (\<lambda>name kw. Inr bare_tokenizer) \<rparr>"

definition example_gc :: generation_config where
  "example_gc = gpt2_generation_config\<lparr> gc_static_shapes := True, gc_reuse_cache := True \<rparr>"

definition example_lm :: optimum_habana_lm where
  "example_lm = new_wrapper Args gpt2_model gpt2_tokenizer example_gc"

definition dynamic_lm :: optimum_habana_lm where
  "dynamic_lm = new_wrapper Args unoptimized_model gpt2_tokenizer gpt2_generation_config"

definition example_runtime :: "int model_runtime" where
  "example_runtime =
     \<lparr> allocate_kv_cache = (\<lambda>b c s. None),
       forward = (\<lambda>log x kw.
         Inr \<lparr> l_bs = t_bs x, l_seq = t_seq x, l_vocab = 2, l_dtype = BFloat16,
               l_data = map (map (\<lambda>i. [i, i + 1])) (t_rows x) \<rparr>) \<rparr>"

definition example_batch :: tensor2 where
  "example_batch = \<lparr> t_bs = 1, t_seq = 3, t_rows = [[11, 12, 13]] \<rparr>"

definition bucket_batch :: tensor2 where
  "bucket_batch =
     \<lparr> t_bs = 1, t_seq = 16,
       t_rows = [[1, 2, 3, 4, 5, 6, 7, 8, 9, 10, 11, 12, 13, 14, 15, 16]] \<rparr>"

definition full_runtime :: "int model_runtime" where
  "full_runtime =
     example_runtime\<lparr> allocate_kv_cache := (\<lambda>b c s. Some (FrameworkError ''out of memory'')) \<rparr>"

definition llama_pad_model :: hf_model where
  "llama_pad_model =
     llama_model\<lparr> generation_config :=
       (generation_config llama_model)\<lparr> gc_pad_token_id := IdInt 1, gc_eos_token_id := IdInt 2 \<rparr> \<rparr>"

section \<open>Bucket selection\<close>

lemma py_first_filter_sorted:
  assumes "sorted xs"
  shows "py_first (filter (\<lambda>b. len \<le> b) xs) = Inr m
         \<longleftrightarrow> (m \<in> set xs \<and> len \<le> m \<and> (\<forall>b \<in> set xs. len \<le> b \<longrightarrow> m \<le> b))"
  using assms
proof (induction xs)
  case Nil
  then show ?case by (simp add: py_first_def)
next
  case (Cons x xs)
  show ?case
  proof (cases "len \<le> x")
    case True
    with Cons.prems show ?thesis by (auto simp: py_first_def)
  next
    case False
    with Cons show ?thesis by (auto simp: py_first_def)
  qed
qed

lemma py_first_filter_Inl:
  "py_first (filter P xs) = Inl e \<longleftrightarrow> e = IndexError \<and> (\<forall>x \<in> set xs. \<not> P x)"
proof (cases "filter P xs")
  case Nil
  then show ?thesis by (auto simp: py_first_def filter_empty_conv)
next
  case (Cons a list)
  then have "a \<in> set (filter P xs)" by simp
  then have "\<exists>x \<in> set xs. P x" by auto
  with Cons show ?thesis by (auto simp: py_first_def)
qed

lemma example_lm_buckets: "self_buckets example_lm = [16, 32, 64, 128, 189, 284, 384]"
  by (simp add: example_lm_def new_wrapper_def Args_def)

text \<open>
  Claim C1.  On a wrapper whose bucket list is ascending, \<open>find_bucket\<close> returns \<open>m\<close>
  exactly when \<open>m\<close> is the minimal element of the bucket list that is at least the
  requested length: \<open>m\<close> is a bucket, \<open>m\<close> is at least the length, and no bucket that is
  at least the length is smaller than \<open>m\<close>.
\<close>

theorem find_bucket_minimal:
  assumes "sorted (self_buckets self)"
  shows "find_bucket self len = Inr m
         \<longleftrightarrow> (m \<in> set (self_buckets self) \<and> len \<le> m
              \<and> (\<forall>b \<in> set (self_buckets self). len \<le> b \<longrightarrow> m \<le> b))"
  unfolding find_bucket_def using assms by (rule py_first_filter_sorted)

theorem find_bucket_minimal_witness:
  "sorted (self_buckets example_lm) \<and> find_bucket example_lm 100 = Inr 128"
proof -
  have s: "sorted (self_buckets example_lm)" by (simp add: example_lm_buckets)
  have "find_bucket example_lm 100 = Inr 128"
    unfolding find_bucket_minimal [OF s, of 100 128] by (simp add: example_lm_buckets)
  with s show ?thesis by simp
qed

text \<open>
  Claim C2.  On a non-empty bucket list, \<open>find_bucket\<close> raises \<open>IndexError\<close> for every
  length above the largest bucket, and returns a bucket whenever some bucket is at least
  the length.
\<close>

theorem find_bucket_fails:
  assumes "self_buckets self \<noteq> []"
  shows "(Max (set (self_buckets self)) < len \<longrightarrow> find_bucket self len = Inl IndexError)
       \<and> ((\<exists>b \<in> set (self_buckets self). len \<le> b) \<longrightarrow> (\<exists>m. find_bucket self len = Inr m))"
proof (intro conjI impI)
  assume "Max (set (self_buckets self)) < len"
  then have "\<forall>x \<in> set (self_buckets self). \<not> len \<le> x"
    using assms by auto
  then show "find_bucket self len = Inl IndexError"
    by (simp add: find_bucket_def py_first_def)
next
  assume ex: "\<exists>b \<in> set (self_buckets self). len \<le> b"
  show "\<exists>m. find_bucket self len = Inr m"
  proof (cases "find_bucket self len")
    case (Inl e)
    with ex show ?thesis by (auto simp: find_bucket_def py_first_filter_Inl)
  next
    case (Inr m)
    then show ?thesis by blast
  qed
qed

theorem find_bucket_fails_witness:
  "self_buckets example_lm \<noteq> [] \<and> Max (set (self_buckets example_lm)) < 385
   \<and> find_bucket example_lm 385 = Inl IndexError
   \<and> (\<exists>b \<in> set (self_buckets example_lm). 384 \<le> b)
   \<and> (\<exists>m. find_bucket example_lm 384 = Inr m)"
proof -
  have ne: "self_buckets example_lm \<noteq> []" by (simp add: example_lm_buckets)
  have lt: "Max (set (self_buckets example_lm)) < 385" by (simp add: example_lm_buckets)
  have ex: "\<exists>b \<in> set (self_buckets example_lm). 384 \<le> b" by (simp add: example_lm_buckets)
  from find_bucket_fails [OF ne, of 385] lt
  have a: "find_bucket example_lm 385 = Inl IndexError" by blast
  from find_bucket_fails [OF ne, of 384] ex
  have b: "\<exists>m. find_bucket example_lm 384 = Inr m" by blast
  from ne lt a ex b show ?thesis by blast
qed

section \<open>The stored buckets and \<open>max_length\<close>\<close>

lemma sorted_last_Max:
  fixes xs :: "int list"
  shows "sorted xs \<Longrightarrow> xs \<noteq> [] \<Longrightarrow> last xs = Max (set xs)"
proof (induction xs)
  case Nil
  then show ?case by simp
next
  case (Cons x xs)
  show ?case
  proof (cases "xs = []")
    case True
    then show ?thesis by simp
  next
    case False
    from Cons.prems have le: "\<forall>y \<in> set xs. x \<le> y" and s: "sorted xs" by simp_all
    from Cons.IH [OF s False] have l: "last xs = Max (set xs)" .
    have "Max (set xs) \<in> set xs" using False by simp
    with le have "x \<le> Max (set xs)" by blast
    then have "Max (insert x (set xs)) = Max (set xs)"
      using False by (simp add: max_def)
    with l False show ?thesis by simp
  qed
qed

lemma max_length_sort:
  "bs \<noteq> [] \<Longrightarrow> py_last (sort bs) = Inr (Max (set (bs :: int list)))"
proof -
  assume ne: "bs \<noteq> []"
  then have ne': "sort bs \<noteq> []" by (metis length_sort length_0_conv)
  have "last (sort bs) = Max (set (sort bs))"
    using ne' by (intro sorted_last_Max) simp_all
  with ne' show ?thesis by (simp add: py_last_def)
qed

section \<open>What \<open>initialize_model\<close> does to \<open>args\<close>\<close>

lemma initialize_model_args:
  "fst (initialize_model lib env a) =
     (case setup_distributed (py_int lib) env a of
        (a1, Some e) \<Rightarrow> a1
      | (a1, None) \<Rightarrow>
          (let a2 = a1\<lparr>limit_hpu_graphs := limit_hpu_graphs a1 \<and> \<not> exclude_hpu_graph_configs a1\<rparr>
           in if accelerator_setup lib a2 = None
              then a2\<lparr>attn_softmax_bf16 := attn_softmax_bf16 a2 \<and> (world_size a2 > 0 \<or> bf16 a2)\<rparr>
              else a2))"
proof (cases "setup_distributed (py_int lib) env a")
  case (Pair a1 r)
  show ?thesis
  proof (cases r)
    case (Some e)
    with Pair show ?thesis by (simp add: initialize_model_def)
  next
    case None
    have ex: "exclude_hpu_graph_configs a1 \<Longrightarrow> limit_hpu_graphs a1"
      by (simp add: exclude_hpu_graph_configs_def split: if_splits)
    have l: "(if exclude_hpu_graph_configs a1 then a1\<lparr>limit_hpu_graphs := False\<rparr> else a1)
             = a1\<lparr>limit_hpu_graphs := limit_hpu_graphs a1 \<and> \<not> exclude_hpu_graph_configs a1\<rparr>"
      by simp
    show ?thesis
      unfolding initialize_model_def Pair None l
      by (simp add: Let_def split: option.split)
  qed
qed


lemma initialize_model_frame_aux:
  "fst (initialize_model lib env a) =
       a\<lparr> local_rank := local_rank (fst (initialize_model lib env a)),
          world_size := world_size (fst (initialize_model lib env a)),
          global_rank := global_rank (fst (initialize_model lib env a)),
          limit_hpu_graphs := limit_hpu_graphs (fst (initialize_model lib env a)),
          attn_softmax_bf16 := attn_softmax_bf16 (fst (initialize_model lib env a)) \<rparr>"
  by (simp add: initialize_model_args setup_distributed_def Let_def split: option.splits)






lemma initialize_model_buckets: "buckets (fst (initialize_model lib env a)) = buckets a"
  by (subst initialize_model_frame_aux) simp

lemma example_init_ok:
  "\<not> isl (OptimumHabanaLM_init example_lib Map.empty ''gpt2'' (BatchInt 1) None Args)"
  by (simp add: OptimumHabanaLM_init_def initialize_model_def setup_distributed_def
        os_getenv_def example_lib_def exclude_hpu_graph_configs_def Args_def Let_def
        setup_tokenizer_def bindE_def gpt2_model_def gpt2_tokenizer_def
        minicpm3_eos_token_id_def gpt2_generation_config_def default_pad_token_def
        setup_generation_config_def)

text \<open>
  Claim C5.  When the constructor returns a wrapper, and the bucket list supplied to it
  (on the ready-made \<open>args\<close>, or on \<open>Args()\<close> after the keyword arguments) is not
  empty, the buckets stored on the wrapper are sorted ascending, they are the supplied
  ones, and \<open>max_length\<close> returns the maximum of the supplied list.
\<close>

theorem stored_buckets_sorted:
  assumes "OptimumHabanaLM_init lib env pretrained bsz parser kw = Inr self"
      and "supplied = buckets (case parser of Some p \<Rightarrow> p | None \<Rightarrow> kw)"
      and "supplied \<noteq> []"
  shows "sorted (self_buckets self) \<and> set (self_buckets self) = set supplied
         \<and> max_length self = Inr (Max (set supplied))"
proof -
  define a0 where "a0 = (case parser of Some p \<Rightarrow> p
                         | None \<Rightarrow> kw\<lparr>model_name_or_path := pretrained, batch_size := bsz\<rparr>)"
  have b0: "buckets a0 = supplied"
    using assms(2) by (simp add: a0_def split: option.splits)
  obtain a r where im: "initialize_model lib env a0 = (a, r)"
    by (cases "initialize_model lib env a0")
  have ba: "buckets a = supplied"
    using initialize_model_buckets [of lib env a0] im b0 by simp
  from assms(1) im obtain m t g where "self = new_wrapper a m t g"
    unfolding OptimumHabanaLM_init_def a0_def [symmetric]
    by (auto simp: Let_def split: sum.splits option.splits)
  then have sb: "self_buckets self = sort supplied"
    by (simp add: new_wrapper_def ba)
  show ?thesis
    using assms(3) by (simp add: sb max_length_def max_length_sort)
qed

theorem stored_buckets_sorted_witness:
  "OptimumHabanaLM_init example_lib Map.empty ''gpt2'' (BatchInt 1) None Args
     = Inr (projr (OptimumHabanaLM_init example_lib Map.empty ''gpt2'' (BatchInt 1) None Args))
   \<and> buckets Args \<noteq> []
   \<and> sorted (self_buckets
        (projr (OptimumHabanaLM_init example_lib Map.empty ''gpt2'' (BatchInt 1) None Args)))
   \<and> max_length (projr (OptimumHabanaLM_init example_lib Map.empty ''gpt2'' (BatchInt 1) None Args))
       = Inr 384"
proof -
  define r where "r = OptimumHabanaLM_init example_lib Map.empty ''gpt2'' (BatchInt 1) None Args"
  have r: "OptimumHabanaLM_init example_lib Map.empty ''gpt2'' (BatchInt 1) None Args = Inr (projr r)"
    using example_init_ok unfolding r_def [symmetric] by (cases r) simp_all
  have b: "buckets Args \<noteq> []" by (simp add: Args_def)
  have m: "Max (set (buckets Args)) = 384" by (simp add: Args_def)
  have e: "buckets Args = buckets (case None :: args option of Some p \<Rightarrow> p | None \<Rightarrow> Args)" by simp
  from stored_buckets_sorted [OF r e b] r b m show ?thesis
    unfolding r_def by simp
qed

section \<open>The excluded HPU graph configurations\<close>

lemma starts_with_iff: "starts_with s sub \<longleftrightarrow> (\<exists>q. s = sub @ q)"
  by (induction s sub rule: starts_with.induct) auto

lemma str_contains_iff: "str_contains sub s \<longleftrightarrow> (\<exists>p q. s = p @ sub @ q)"
proof (induction s)
  case Nil
  then show ?case by simp
next
  case (Cons c cs)
  show ?case
  proof
    assume "str_contains sub (c # cs)"
    then consider "starts_with (c # cs) sub" | "str_contains sub cs" by auto
    then show "\<exists>p q. c # cs = p @ sub @ q"
    proof cases
      case 1
      then obtain q where "c # cs = sub @ q" by (auto simp: starts_with_iff)
      then have "c # cs = [] @ sub @ q" by simp
      then show ?thesis by blast
    next
      case 2
      with Cons.IH obtain p q where "cs = p @ sub @ q" by blast
      then have "c # cs = (c # p) @ sub @ q" by simp
      then show ?thesis by blast
    qed
  next
    assume "\<exists>p q. c # cs = p @ sub @ q"
    then obtain p q where pq: "c # cs = p @ sub @ q" by blast
    show "str_contains sub (c # cs)"
    proof (cases p)
      case Nil
      with pq have "starts_with (c # cs) sub" by (auto simp: starts_with_iff)
      then show ?thesis by simp
    next
      case (Cons d ds)
      with pq have "cs = ds @ sub @ q" by simp
      with Cons.IH have "str_contains sub cs" by blast
      then show ?thesis by simp
    qed
  qed
qed

lemma example_setup_distributed:
  "setup_distributed (py_int example_lib) Map.empty Args = (Args, None)"
  by (simp add: setup_distributed_def os_getenv_def example_lib_def Args_def)

lemma example_setup_distributed_8:
  "setup_distributed (py_int example_lib) [''WORLD_SIZE'' \<mapsto> ''8'']
     (Args\<lparr>max_input_tokens := 4096, max_new_tokens := 128\<rparr>)
   = (Args\<lparr>max_input_tokens := 4096, max_new_tokens := 128, world_size := 8\<rparr>, None)"
  by (simp add: setup_distributed_def os_getenv_def example_lib_def Args_def)

text \<open>
  Claim C10.  Once \<open>setup_distributed\<close> has read the three ranks, \<open>initialize_model\<close>
  leaves \<open>limit_hpu_graphs\<close> at \<open>False\<close> exactly when \<open>batch_size == 1\<close> and
  \<open>limit_hpu_graphs\<close> is set, unless the model name contains \<open>falcon-180B\<close> or
  \<open>falcon-180b\<close>, or the world size read from \<open>WORLD_SIZE\<close> is 2, 4 or 8 with
  \<open>max_input_tokens >= 4096\<close> and \<open>max_new_tokens >= 128\<close>; in every other
  configuration the field keeps the value supplied.
\<close>

theorem limit_hpu_graphs_forced_off:
  assumes "setup_distributed (py_int lib) env a = (a1, None)"
  shows "py_int lib (os_getenv env ''WORLD_SIZE'' ''0'') = Some (world_size a1)
    \<and> limit_hpu_graphs (fst (initialize_model lib env a)) =
       (if batch_size a = BatchInt 1 \<and> limit_hpu_graphs a
           \<and> \<not> (str_contains ''falcon-180B'' (model_name_or_path a)
                 \<or> str_contains ''falcon-180b'' (model_name_or_path a)
                 \<or> (world_size a1 \<in> {2, 4, 8}
                     \<and> max_input_tokens a \<ge> 4096 \<and> max_new_tokens a \<ge> 128))
        then False else limit_hpu_graphs a)"
proof -
  from assms have ws: "py_int lib (os_getenv env ''WORLD_SIZE'' ''0'') = Some (world_size a1)"
    and same: "batch_size a1 = batch_size a" "limit_hpu_graphs a1 = limit_hpu_graphs a"
      "model_name_or_path a1 = model_name_or_path a" "max_input_tokens a1 = max_input_tokens a"
      "max_new_tokens a1 = max_new_tokens a"
    by (auto simp: setup_distributed_def split: option.splits)
  have "limit_hpu_graphs (fst (initialize_model lib env a))
        = (limit_hpu_graphs a1 \<and> \<not> exclude_hpu_graph_configs a1)"
    by (simp add: initialize_model_args assms Let_def)
  also have "\<dots> = (if batch_size a = BatchInt 1 \<and> limit_hpu_graphs a
           \<and> \<not> (str_contains ''falcon-180B'' (model_name_or_path a)
                 \<or> str_contains ''falcon-180b'' (model_name_or_path a)
                 \<or> (world_size a1 \<in> {2, 4, 8}
                     \<and> max_input_tokens a \<ge> 4096 \<and> max_new_tokens a \<ge> 128))
        then False else limit_hpu_graphs a)"
    unfolding exclude_hpu_graph_configs_def same by auto
  finally show ?thesis using ws by simp
qed

theorem limit_hpu_graphs_forced_off_witness:
  "setup_distributed (py_int example_lib) Map.empty Args = (Args, None)
   \<and> limit_hpu_graphs Args
   \<and> limit_hpu_graphs (fst (initialize_model example_lib Map.empty Args)) = False
   \<and> setup_distributed (py_int example_lib) [''WORLD_SIZE'' \<mapsto> ''8'']
        (Args\<lparr>max_input_tokens := 4096, max_new_tokens := 128\<rparr>)
      = (Args\<lparr>max_input_tokens := 4096, max_new_tokens := 128, world_size := 8\<rparr>, None)
   \<and> limit_hpu_graphs (fst (initialize_model example_lib [''WORLD_SIZE'' \<mapsto> ''8'']
        (Args\<lparr>max_input_tokens := 4096, max_new_tokens := 128\<rparr>))) = True"
proof -
  have a: "limit_hpu_graphs (fst (initialize_model example_lib Map.empty Args)) = False"
    using limit_hpu_graphs_forced_off [OF example_setup_distributed]
    by (simp add: Args_def)
  have b: "limit_hpu_graphs (fst (initialize_model example_lib [''WORLD_SIZE'' \<mapsto> ''8'']
        (Args\<lparr>max_input_tokens := 4096, max_new_tokens := 128\<rparr>))) = True"
    using limit_hpu_graphs_forced_off [OF example_setup_distributed_8]
    by (simp add: Args_def)
  have c: "limit_hpu_graphs Args" by (simp add: Args_def)
  from a b c example_setup_distributed example_setup_distributed_8 show ?thesis by simp
qed

section \<open>The assertion of \<open>setup_generation_config\<close>\<close>

text \<open>
  Claim C4.  \<open>setup_generation_config\<close> raises \<open>AssertionError\<close> exactly when
  \<open>reduce_recompile\<close> is set and the bucket size it has just stored, \<open>args.bucket_size\<close>
  for an optimized model and \<open>-1\<close> otherwise, is not positive; it raises nothing else,
  and when it returns, the configuration holds that bucket size.
\<close>

theorem setup_generation_config_assertion:
  "(setup_generation_config lib a m t = Inl AssertionError
      \<longleftrightarrow> reduce_recompile a
          \<and> \<not> 0 < (if model_is_optimized lib (config m) then bucket_size a else - 1))
   \<and> (\<forall>e. setup_generation_config lib a m t = Inl e \<longrightarrow> e = AssertionError)
   \<and> (\<forall>g. setup_generation_config lib a m t = Inr g \<longrightarrow>
          gc_reduce_recompile g = reduce_recompile a
          \<and> gc_bucket_size g = (if model_is_optimized lib (config m) then bucket_size a else - 1))"
  by (simp add: setup_generation_config_def Let_def)

theorem setup_generation_config_assertion_witness:
  "setup_generation_config example_lib (Args\<lparr>reduce_recompile := True\<rparr>) unoptimized_model
     gpt2_tokenizer = Inl AssertionError
   \<and> setup_generation_config example_lib (Args\<lparr>reduce_recompile := True\<rparr>) gpt2_model
     gpt2_tokenizer \<noteq> Inl AssertionError
   \<and> setup_generation_config example_lib (Args\<lparr>bucket_size := 0\<rparr>) gpt2_model
     gpt2_tokenizer \<noteq> Inl AssertionError"
proof -
  note th = setup_generation_config_assertion [THEN conjunct1]
  have a: "setup_generation_config example_lib (Args\<lparr>reduce_recompile := True\<rparr>) unoptimized_model
     gpt2_tokenizer = Inl AssertionError"
    unfolding th by (simp add: example_lib_def unoptimized_model_def gpt2_model_def)
  have b: "setup_generation_config example_lib (Args\<lparr>reduce_recompile := True\<rparr>) gpt2_model
     gpt2_tokenizer \<noteq> Inl AssertionError"
    unfolding th by (simp add: example_lib_def gpt2_model_def Args_def)
  have c: "setup_generation_config example_lib (Args\<lparr>bucket_size := 0\<rparr>) gpt2_model
     gpt2_tokenizer \<noteq> Inl AssertionError"
    unfolding th by (simp add: example_lib_def gpt2_model_def Args_def)
  from a b c show ?thesis by simp
qed

section \<open>The forward pass\<close>

lemma py_first_filter_Inr:
  "py_first (filter P xs) = Inr m \<Longrightarrow> P m \<and> m \<in> set xs"
proof -
  assume a: "py_first (filter P xs) = Inr m"
  then obtain ys where "filter P xs = m # ys"
    by (cases "filter P xs") (auto simp: py_first_def)
  then have "m \<in> set (filter P xs)" by simp
  then show ?thesis by simp
qed

lemma find_bucket_ge: "find_bucket self len = Inr b \<Longrightarrow> len \<le> b"
  unfolding find_bucket_def by (drule py_first_filter_Inr) simp

lemma find_bucket_returns:
  assumes "\<exists>b \<in> set (self_buckets self). len \<le> b"
  shows "\<exists>b. find_bucket self len = Inr b"
proof (cases "find_bucket self len")
  case (Inl e)
  with assms show ?thesis by (auto simp: find_bucket_def py_first_filter_Inl)
next
  case (Inr m)
  then show ?thesis by blast
qed

lemma py_slice_to_strip: "0 < p \<Longrightarrow> py_slice_to (- p) (n + nat p) = n"
  by (simp add: py_slice_to_def)

lemma F_pad_zero: "F_pad x 0 v = x"
  by (simp add: F_pad_def)

lemma F_pad_shape:
  assumes "0 \<le> p" "wf_batch x"
  shows "wf_batch (F_pad x p v) \<and> t_bs (F_pad x p v) = t_bs x
         \<and> t_seq (F_pad x p v) = t_seq x + nat p
         \<and> map (take (t_seq x)) (t_rows (F_pad x p v)) = t_rows x"
  using assms by (auto simp: F_pad_def wf_batch_def map_idI)

lemma strip_padding_shape:
  assumes "0 < p" "wf_logits lg" "l_seq lg = n + nat p"
  shows "wf_logits (strip_padding lg p) \<and> l_seq (strip_padding lg p) = n
         \<and> l_bs (strip_padding lg p) = l_bs lg \<and> l_vocab (strip_padding lg p) = l_vocab lg
         \<and> l_dtype (strip_padding lg p) = l_dtype lg
         \<and> l_data (strip_padding lg p) = map (take n) (l_data lg)"
proof -
  have k: "\<And>row. row \<in> set (l_data lg) \<Longrightarrow> py_slice_to (- p) (length row) = n"
    using assms by (simp add: wf_logits_def py_slice_to_strip)
  have d: "l_data (strip_padding lg p) = map (take n) (l_data lg)"
    by (simp add: strip_padding_def k)
  have s: "l_seq (strip_padding lg p) = n"
    using assms by (simp add: strip_padding_def py_slice_to_strip)
  have w: "wf_logits (strip_padding lg p)"
    unfolding wf_logits_def d s using assms(2,3)
    by (auto simp: wf_logits_def strip_padding_def dest: in_set_takeD)
  from d s w show ?thesis by (simp add: strip_padding_def)
qed

lemma unstripped_shape:
  assumes "wf_logits lg" "l_seq lg = n"
  shows "l_data lg = map (take n) (l_data lg)"
  using assms by (simp add: wf_logits_def map_idI)

lemma to_dtype_shape:
  "wf_logits (to_dtype d lg) = wf_logits lg" "l_seq (to_dtype d lg) = l_seq lg"
  "l_bs (to_dtype d lg) = l_bs lg" "l_vocab (to_dtype d lg) = l_vocab lg"
  "l_data (to_dtype d lg) = l_data lg" "l_dtype (to_dtype d lg) = d"
  by (simp_all add: to_dtype_def wf_logits_def)

lemma run_model_result:
  assumes f: "forward rt log x (self_model_inputs self) = Inr lg"
      and w: "wf_logits lg" and n: "l_seq lg = n + nat p"
      and p: "0 \<le> p" "gc_static_shapes (self_generation_config self) \<or> p = 0"
  shows "\<exists>out. run_model rt self log x p = (log @ [Forward x (self_model_inputs self)], Inr out)
           \<and> wf_logits out \<and> l_seq out = n \<and> l_bs out = l_bs lg \<and> l_vocab out = l_vocab lg
           \<and> l_dtype out = Float32 \<and> l_data out = map (take n) (l_data lg)
           \<and> (p = 0 \<longrightarrow> out = lg\<lparr> l_dtype := Float32 \<rparr>)"
proof (cases "0 < p")
  case True
  with p have st: "gc_static_shapes (self_generation_config self)" by auto
  have r: "run_model rt self log x p
           = (log @ [Forward x (self_model_inputs self)], Inr (to_dtype Float32 (strip_padding lg p)))"
    using True st f by (simp add: run_model_def bindE_def)
  from strip_padding_shape [OF True w n] True
  show ?thesis unfolding r by (simp add: to_dtype_shape)
next
  case False
  with p have p0: "p = 0" by simp
  have r: "run_model rt self log x p
           = (log @ [Forward x (self_model_inputs self)], Inr (to_dtype Float32 lg))"
    using p0 f by (simp add: run_model_def bindE_def)
  have n': "l_seq lg = n" using n p0 by simp
  from unstripped_shape [OF w n'] w n'
  show ?thesis unfolding r by (simp add: to_dtype_shape)
qed

lemma one_row_lengths:
  "length xs = 1 \<Longrightarrow> \<forall>x \<in> set xs. length x = n \<Longrightarrow> map length xs = [n]"
  by (cases xs) simp_all

lemma example_runtime_alloc: "\<forall>b c s. allocate_kv_cache example_runtime b c s = None"
  by (simp add: example_runtime_def)

lemma example_runtime_forward:
  "\<forall>log x kw. wf_batch x \<longrightarrow>
     (\<exists>lg. forward example_runtime log x kw = Inr lg \<and> wf_logits lg
           \<and> l_bs lg = t_bs x \<and> l_seq lg = t_seq x)"
  by (auto simp: example_runtime_def wf_batch_def wf_logits_def)

lemma example_lm_flags:
  "gc_static_shapes (self_generation_config example_lm)"
  "gc_use_cache (self_generation_config example_lm)"
  "gc_reuse_cache (self_generation_config example_lm)"
  by (simp_all add: example_lm_def new_wrapper_def example_gc_def gpt2_generation_config_def)

lemma dynamic_lm_flags: "\<not> gc_static_shapes (self_generation_config dynamic_lm)"
  by (simp add: dynamic_lm_def new_wrapper_def gpt2_generation_config_def)

lemma example_find_bucket:
  "find_bucket example_lm 3 = Inr 16" "find_bucket example_lm 16 = Inr 16"
  by (simp_all add: find_bucket_def py_first_def example_lm_buckets)

lemma example_batches:
  "wf_batch example_batch" "t_seq example_batch = 3" "t_bs example_batch = 1"
  "wf_batch bucket_batch" "t_seq bucket_batch = 16" "t_bs bucket_batch = 1"
  by (simp_all add: wf_batch_def example_batch_def bucket_batch_def)

lemma example_model_inputs: "self_model_inputs example_lm = [(''use_cache'', True)]"
  by (simp add: example_lm_def new_wrapper_def build_model_inputs_def gpt2_model_def example_gc_def
      gpt2_generation_config_def)

lemma example_padded:
  "F_pad example_batch (16 - 3) (pad_token_id (config (self_model example_lm))) =
     \<lparr> t_bs = 1, t_seq = 16, t_rows = [[11, 12, 13, 0, 0, 0, 0, 0, 0, 0, 0, 0, 0, 0, 0, 0]] \<rparr>"
  by (simp add: F_pad_def example_batch_def example_lm_def new_wrapper_def gpt2_model_def
      eval_nat_numeral)

text \<open>
  Claim C3.  Let the runtime raise nothing and return, for every well-formed input,
  well-formed logits with one row for each input row and one position for each input
  position.  Then for every well-formed batch of shape \<open>(bs, L)\<close>, where in static-shape
  mode the bucket list is not empty and \<open>L\<close> does not exceed its largest element,
  \<open>_model_call\<close> calls the model once, on a tensor whose rows begin with the rows of the
  batch, and returns the first \<open>L\<close> positions of the logits the model gave: \<open>bs\<close> rows
  of exactly \<open>L\<close> positions each, with dtype float32.  When static-shape mode is off, or
  the bucket selected is \<open>L\<close> itself, the model gets the batch as it is and its logits
  are returned whole, with only the dtype changed.
\<close>

theorem model_call_length:
  assumes alloc: "\<forall>b c s. allocate_kv_cache rt b c s = None"
      and fwd: "\<forall>log x kw. wf_batch x \<longrightarrow>
                  (\<exists>lg. forward rt log x kw = Inr lg \<and> wf_logits lg
                        \<and> l_bs lg = t_bs x \<and> l_seq lg = t_seq x)"
      and wf: "wf_batch inps"
      and bucket: "gc_static_shapes (self_generation_config self) \<longrightarrow>
                     self_buckets self \<noteq> [] \<and> int (t_seq inps) \<le> Max (set (self_buckets self))"
  shows "\<exists>pre x lg out.
           model_call rt self inps = (pre @ [Forward x (self_model_inputs self)], Inr out)
         \<and> forward rt pre x (self_model_inputs self) = Inr lg
         \<and> t_bs x = t_bs inps \<and> map (take (t_seq inps)) (t_rows x) = t_rows inps
         \<and> l_data out = map (take (t_seq inps)) (l_data lg)
         \<and> wf_logits out \<and> l_bs out = t_bs inps \<and> l_seq out = t_seq inps
         \<and> l_vocab out = l_vocab lg
         \<and> length (l_data out) = t_bs inps
         \<and> (\<forall>row \<in> set (l_data out). length row = t_seq inps)
         \<and> l_dtype out = Float32
         \<and> (\<not> gc_static_shapes (self_generation_config self)
              \<or> find_bucket self (int (t_seq inps)) = Inr (int (t_seq inps))
             \<longrightarrow> x = inps \<and> out = lg\<lparr> l_dtype := Float32 \<rparr>)"
proof -
  have core: "\<exists>pre x p lg out.
           model_call rt self inps = (pre @ [Forward x (self_model_inputs self)], Inr out)
         \<and> forward rt pre x (self_model_inputs self) = Inr lg
         \<and> t_bs x = t_bs inps \<and> map (take (t_seq inps)) (t_rows x) = t_rows inps
         \<and> l_data out = map (take (t_seq inps)) (l_data lg)
         \<and> wf_logits out \<and> l_bs out = t_bs inps \<and> l_seq out = t_seq inps
         \<and> l_vocab out = l_vocab lg \<and> l_dtype out = Float32
         \<and> (p = 0 \<longrightarrow> x = inps \<and> out = lg\<lparr> l_dtype := Float32 \<rparr>)
         \<and> (gc_static_shapes (self_generation_config self) \<longrightarrow>
               find_bucket self (int (t_seq inps)) = Inr (int (t_seq inps) + p))
         \<and> (\<not> gc_static_shapes (self_generation_config self) \<longrightarrow> p = 0)"
  proof (cases "gc_static_shapes (self_generation_config self)")
    case False
    from fwd wf obtain lg where lg: "forward rt [] inps (self_model_inputs self) = Inr lg"
      "wf_logits lg" "l_bs lg = t_bs inps" "l_seq lg = t_seq inps" by blast
    have n: "l_seq lg = t_seq inps + nat 0" using lg(4) by simp
    from run_model_result [OF lg(1) lg(2) n] obtain out where
      out: "run_model rt self [] inps 0 = ([] @ [Forward inps (self_model_inputs self)], Inr out)"
        "wf_logits out" "l_seq out = t_seq inps" "l_bs out = l_bs lg" "l_vocab out = l_vocab lg"
        "l_dtype out = Float32" "l_data out = map (take (t_seq inps)) (l_data lg)"
        "out = lg\<lparr> l_dtype := Float32 \<rparr>"
      by auto
    have mc: "model_call rt self inps = run_model rt self [] inps 0"
      using False by (simp add: model_call_def)
    have rows: "map (take (t_seq inps)) (t_rows inps) = t_rows inps"
      using wf by (simp add: wf_batch_def map_idI)
    show ?thesis
      apply (rule exI [of _ "[]"], rule exI [of _ inps], rule exI [of _ 0],
             rule exI [of _ lg], rule exI [of _ out])
      using False mc out lg rows by simp
  next
    case True
    with bucket have ne: "self_buckets self \<noteq> []"
      and le: "int (t_seq inps) \<le> Max (set (self_buckets self))" by simp_all
    from ne have "Max (set (self_buckets self)) \<in> set (self_buckets self)" by simp
    with le have "\<exists>b \<in> set (self_buckets self). int (t_seq inps) \<le> b" by blast
    from find_bucket_returns [OF this] obtain b where
      b: "find_bucket self (int (t_seq inps)) = Inr b" by blast
    from find_bucket_ge [OF b] have ge: "int (t_seq inps) \<le> b" .
    define p where "p = b - int (t_seq inps)"
    define x where "x = F_pad inps p (pad_token_id (config (self_model self)))"
    define log where "log = (if gc_use_cache (self_generation_config self)
                              \<and> gc_reuse_cache (self_generation_config self)
                            then [AllocateKvCache (t_bs inps) (b + 1) b] else [])"
    have p0: "0 \<le> p" using ge by (simp add: p_def)
    from F_pad_shape [OF p0 wf] have xs: "wf_batch x" "t_bs x = t_bs inps"
      "t_seq x = t_seq inps + nat p" "map (take (t_seq inps)) (t_rows x) = t_rows inps"
      unfolding x_def by blast+
    from fwd xs(1) obtain lg where lg: "forward rt log x (self_model_inputs self) = Inr lg"
      "wf_logits lg" "l_bs lg = t_bs x" "l_seq lg = t_seq x" by blast
    have n: "l_seq lg = t_seq inps + nat p" using lg(4) xs(3) by simp
    from run_model_result [OF lg(1) lg(2) n p0] True obtain out where
      out: "run_model rt self log x p = (log @ [Forward x (self_model_inputs self)], Inr out)"
        "wf_logits out" "l_seq out = t_seq inps" "l_bs out = l_bs lg" "l_vocab out = l_vocab lg"
        "l_dtype out = Float32" "l_data out = map (take (t_seq inps)) (l_data lg)"
        "p = 0 \<longrightarrow> out = lg\<lparr> l_dtype := Float32 \<rparr>"
      by auto
    have mc: "model_call rt self inps = run_model rt self log x p"
      using True b alloc by (simp add: model_call_def Let_def p_def x_def log_def)
    have x0: "p = 0 \<longrightarrow> x = inps" by (simp add: x_def F_pad_zero)
    have fb: "find_bucket self (int (t_seq inps)) = Inr (int (t_seq inps) + p)"
      using b by (simp add: p_def)
    show ?thesis
      apply (rule exI [of _ log], rule exI [of _ x], rule exI [of _ p],
             rule exI [of _ lg], rule exI [of _ out])
      using True mc out lg xs x0 fb by simp
  qed
  then obtain pre x p lg out where
    c: "model_call rt self inps = (pre @ [Forward x (self_model_inputs self)], Inr out)"
       "forward rt pre x (self_model_inputs self) = Inr lg"
       "t_bs x = t_bs inps" "map (take (t_seq inps)) (t_rows x) = t_rows inps"
       "l_data out = map (take (t_seq inps)) (l_data lg)"
       "wf_logits out" "l_bs out = t_bs inps" "l_seq out = t_seq inps"
       "l_vocab out = l_vocab lg" "l_dtype out = Float32"
       "p = 0 \<longrightarrow> x = inps \<and> out = lg\<lparr> l_dtype := Float32 \<rparr>"
       "gc_static_shapes (self_generation_config self) \<longrightarrow>
               find_bucket self (int (t_seq inps)) = Inr (int (t_seq inps) + p)"
       "\<not> gc_static_shapes (self_generation_config self) \<longrightarrow> p = 0"
    by blast
  have len: "length (l_data out) = t_bs inps"
    "\<forall>row \<in> set (l_data out). length row = t_seq inps"
    using c(6,7,8) by (simp_all add: wf_logits_def)
  have edge: "\<not> gc_static_shapes (self_generation_config self)
              \<or> find_bucket self (int (t_seq inps)) = Inr (int (t_seq inps))
             \<longrightarrow> x = inps \<and> out = lg\<lparr> l_dtype := Float32 \<rparr>"
    using c(11,12,13) by auto
  show ?thesis
    apply (rule exI [of _ pre], rule exI [of _ x], rule exI [of _ lg], rule exI [of _ out])
    using c len edge by simp
qed

theorem model_call_length_witness:
  "(\<forall>b c s. allocate_kv_cache example_runtime b c s = None)
   \<and> wf_batch example_batch \<and> wf_batch bucket_batch
   \<and> gc_static_shapes (self_generation_config example_lm)
   \<and> self_buckets example_lm \<noteq> []
   \<and> int (t_seq example_batch) \<le> Max (set (self_buckets example_lm))
   \<and> int (t_seq bucket_batch) \<le> Max (set (self_buckets example_lm))
   \<and> find_bucket example_lm (int (t_seq bucket_batch)) = Inr (int (t_seq bucket_batch))
   \<and> \<not> gc_static_shapes (self_generation_config dynamic_lm)
   \<and> (\<exists>out. snd (model_call example_runtime example_lm example_batch) = Inr out
             \<and> map length (l_data out) = [3] \<and> l_seq out = 3 \<and> l_dtype out = Float32)
   \<and> (\<exists>pre lg. model_call example_runtime example_lm bucket_batch
                   = (pre @ [Forward bucket_batch (self_model_inputs example_lm)],
                      Inr (lg\<lparr> l_dtype := Float32 \<rparr>))
               \<and> forward example_runtime pre bucket_batch (self_model_inputs example_lm) = Inr lg
               \<and> map length (l_data lg) = [16])
   \<and> (\<exists>out. snd (model_call example_runtime dynamic_lm example_batch) = Inr out
             \<and> map length (l_data out) = [3] \<and> l_seq out = 3 \<and> l_dtype out = Float32)"
proof -
  have b3: "gc_static_shapes (self_generation_config example_lm) \<longrightarrow>
      self_buckets example_lm \<noteq> [] \<and> int (t_seq example_batch) \<le> Max (set (self_buckets example_lm))"
    by (simp add: example_lm_buckets example_batches)
  have b16: "gc_static_shapes (self_generation_config example_lm) \<longrightarrow>
      self_buckets example_lm \<noteq> [] \<and> int (t_seq bucket_batch) \<le> Max (set (self_buckets example_lm))"
    by (simp add: example_lm_buckets example_batches)
  have d3: "gc_static_shapes (self_generation_config dynamic_lm) \<longrightarrow>
      self_buckets dynamic_lm \<noteq> [] \<and> int (t_seq example_batch) \<le> Max (set (self_buckets dynamic_lm))"
    using dynamic_lm_flags by blast
  have fb: "find_bucket example_lm (int (t_seq bucket_batch)) = Inr (int (t_seq bucket_batch))"
    by (simp add: example_batches example_find_bucket)
  from model_call_length [OF example_runtime_alloc example_runtime_forward example_batches(1) b3]
  have s: "\<exists>out. snd (model_call example_runtime example_lm example_batch) = Inr out
             \<and> map length (l_data out) = [3] \<and> l_seq out = 3 \<and> l_dtype out = Float32"
    unfolding example_batches by (fastforce intro: one_row_lengths)
  from model_call_length [OF example_runtime_alloc example_runtime_forward example_batches(1) d3]
  have d: "\<exists>out. snd (model_call example_runtime dynamic_lm example_batch) = Inr out
             \<and> map length (l_data out) = [3] \<and> l_seq out = 3 \<and> l_dtype out = Float32"
    unfolding example_batches by (fastforce intro: one_row_lengths)
  from model_call_length [OF example_runtime_alloc example_runtime_forward example_batches(4) b16]
  obtain pre x lg out where e:
    "model_call example_runtime example_lm bucket_batch
       = (pre @ [Forward x (self_model_inputs example_lm)], Inr out)"
    "forward example_runtime pre x (self_model_inputs example_lm) = Inr lg"
    "length (l_data out) = t_bs bucket_batch"
    "\<forall>row \<in> set (l_data out). length row = t_seq bucket_batch"
    "\<not> gc_static_shapes (self_generation_config example_lm)
       \<or> find_bucket example_lm (int (t_seq bucket_batch)) = Inr (int (t_seq bucket_batch))
     \<longrightarrow> x = bucket_batch \<and> out = lg\<lparr> l_dtype := Float32 \<rparr>"
    by blast
  from e(5) fb have x: "x = bucket_batch" "out = lg\<lparr> l_dtype := Float32 \<rparr>" by blast+
  from e(3,4) x have rows: "map length (l_data lg) = [16]"
    by (intro one_row_lengths) (simp_all add: example_batches)
  from e(1,2) x rows
  have edge: "\<exists>pre lg. model_call example_runtime example_lm bucket_batch
                   = (pre @ [Forward bucket_batch (self_model_inputs example_lm)],
                      Inr (lg\<lparr> l_dtype := Float32 \<rparr>))
               \<and> forward example_runtime pre bucket_batch (self_model_inputs example_lm) = Inr lg
               \<and> map length (l_data lg) = [16]"
    by - (rule exI [of _ pre], rule exI [of _ lg], simp)
  have ne: "self_buckets example_lm \<noteq> []" by (simp add: example_lm_buckets)
  from b3 b16 example_lm_flags(1) have les:
    "int (t_seq example_batch) \<le> Max (set (self_buckets example_lm))"
    "int (t_seq bucket_batch) \<le> Max (set (self_buckets example_lm))" by blast+
  show ?thesis
    apply (intro conjI)
    using example_runtime_alloc example_batches(1,4)
      example_lm_flags(1) ne les fb dynamic_lm_flags s edge d
    by blast+
qed

text \<open>
  Claim C7.  In static-shape mode with \<open>use_cache\<close> and \<open>reuse_cache\<close> set, once a
  bucket is selected, \<open>_model_call\<close> calls \<open>allocate_kv_cache\<close> on the model with the
  batch size, capacity \<open>bucket_length + 1\<close> and sequence \<open>bucket_length\<close>: if that call
  raises, the exception is the result and the model is not invoked; otherwise the model is
  invoked next, with the allocation as the one call made before it.  When no bucket can be
  selected the result is the \<open>IndexError\<close>, whatever the allocation would do.  When
  static-shape mode or either flag is off, no allocation is made: the result does not
  depend on what \<open>allocate_kv_cache\<close> does.
\<close>

theorem kv_cache_allocation:
  "(\<forall>b. gc_static_shapes (self_generation_config self)
        \<and> gc_use_cache (self_generation_config self)
        \<and> gc_reuse_cache (self_generation_config self)
        \<and> find_bucket self (int (t_seq inps)) = Inr b \<longrightarrow>
        (\<forall>e. allocate_kv_cache rt (t_bs inps) (b + 1) b = Some e \<longrightarrow>
              model_call rt self inps = ([AllocateKvCache (t_bs inps) (b + 1) b], Inl e))
        \<and> (allocate_kv_cache rt (t_bs inps) (b + 1) b = None \<longrightarrow>
              model_call rt self inps =
                ([AllocateKvCache (t_bs inps) (b + 1) b,
                  Forward (F_pad inps (b - int (t_seq inps)) (pad_token_id (config (self_model self))))
                    (self_model_inputs self)],
                 case forward rt [AllocateKvCache (t_bs inps) (b + 1) b]
                        (F_pad inps (b - int (t_seq inps)) (pad_token_id (config (self_model self))))
                        (self_model_inputs self) of
                   Inl e \<Rightarrow> Inl e
                 | Inr logits \<Rightarrow>
                     Inr ((if b - int (t_seq inps) > 0
                           then strip_padding logits (b - int (t_seq inps)) else logits)
                          \<lparr> l_dtype := Float32 \<rparr>))))
   \<and> (\<forall>e. gc_static_shapes (self_generation_config self)
          \<and> find_bucket self (int (t_seq inps)) = Inl e \<longrightarrow>
          (\<forall>f. model_call (rt\<lparr> allocate_kv_cache := f \<rparr>) self inps = ([], Inl e)))
   \<and> (\<not> (gc_static_shapes (self_generation_config self)
           \<and> gc_use_cache (self_generation_config self)
           \<and> gc_reuse_cache (self_generation_config self)) \<longrightarrow>
        filter is_allocation (fst (model_call rt self inps)) = []
        \<and> (\<forall>f. model_call (rt\<lparr> allocate_kv_cache := f \<rparr>) self inps = model_call rt self inps))"
proof (intro conjI allI impI)
  fix b e
  assume a: "gc_static_shapes (self_generation_config self)
        \<and> gc_use_cache (self_generation_config self)
        \<and> gc_reuse_cache (self_generation_config self)
        \<and> find_bucket self (int (t_seq inps)) = Inr b"
    and r: "allocate_kv_cache rt (t_bs inps) (b + 1) b = Some e"
  then show "model_call rt self inps = ([AllocateKvCache (t_bs inps) (b + 1) b], Inl e)"
    by (simp add: model_call_def Let_def)
next
  fix b
  assume a: "gc_static_shapes (self_generation_config self)
        \<and> gc_use_cache (self_generation_config self)
        \<and> gc_reuse_cache (self_generation_config self)
        \<and> find_bucket self (int (t_seq inps)) = Inr b"
    and r: "allocate_kv_cache rt (t_bs inps) (b + 1) b = None"
  then show "model_call rt self inps =
                ([AllocateKvCache (t_bs inps) (b + 1) b,
                  Forward (F_pad inps (b - int (t_seq inps)) (pad_token_id (config (self_model self))))
                    (self_model_inputs self)],
                 case forward rt [AllocateKvCache (t_bs inps) (b + 1) b]
                        (F_pad inps (b - int (t_seq inps)) (pad_token_id (config (self_model self))))
                        (self_model_inputs self) of
                   Inl e \<Rightarrow> Inl e
                 | Inr logits \<Rightarrow>
                     Inr ((if b - int (t_seq inps) > 0
                           then strip_padding logits (b - int (t_seq inps)) else logits)
                          \<lparr> l_dtype := Float32 \<rparr>))"
    by (simp add: model_call_def run_model_def bindE_def to_dtype_def Let_def split: sum.split)
next
  fix e f
  assume "gc_static_shapes (self_generation_config self)
          \<and> find_bucket self (int (t_seq inps)) = Inl e"
  then show "model_call (rt\<lparr> allocate_kv_cache := f \<rparr>) self inps = ([], Inl e)"
    by (simp add: model_call_def Let_def)
next
  assume n: "\<not> (gc_static_shapes (self_generation_config self)
           \<and> gc_use_cache (self_generation_config self)
           \<and> gc_reuse_cache (self_generation_config self))"
  then show "filter is_allocation (fst (model_call rt self inps)) = []"
    by (auto simp: model_call_def run_model_def Let_def split: sum.split)
next
  fix f
  assume n: "\<not> (gc_static_shapes (self_generation_config self)
           \<and> gc_use_cache (self_generation_config self)
           \<and> gc_reuse_cache (self_generation_config self))"
  then show "model_call (rt\<lparr> allocate_kv_cache := f \<rparr>) self inps = model_call rt self inps"
    by (auto simp: model_call_def run_model_def Let_def split: sum.split)
qed

theorem kv_cache_allocation_witness:
  "gc_static_shapes (self_generation_config example_lm)
   \<and> gc_use_cache (self_generation_config example_lm)
   \<and> gc_reuse_cache (self_generation_config example_lm)
   \<and> find_bucket example_lm (int (t_seq example_batch)) = Inr 16
   \<and> allocate_kv_cache full_runtime (t_bs example_batch) (16 + 1) 16
       = Some (FrameworkError ''out of memory'')
   \<and> model_call full_runtime example_lm example_batch
       = ([AllocateKvCache 1 17 16], Inl (FrameworkError ''out of memory''))
   \<and> allocate_kv_cache example_runtime (t_bs example_batch) (16 + 1) 16 = None
   \<and> fst (model_call example_runtime example_lm example_batch)
       = [AllocateKvCache 1 17 16,
          Forward \<lparr> t_bs = 1, t_seq = 16,
                    t_rows = [[11, 12, 13, 0, 0, 0, 0, 0, 0, 0, 0, 0, 0, 0, 0, 0]] \<rparr>
            [(''use_cache'', True)]]
   \<and> \<not> gc_static_shapes (self_generation_config dynamic_lm)
   \<and> filter is_allocation (fst (model_call full_runtime dynamic_lm example_batch)) = []"
proof -
  note k = kv_cache_allocation [of example_lm example_batch]
  have fb: "find_bucket example_lm (int (t_seq example_batch)) = Inr 16"
    by (simp add: example_batches example_find_bucket)
  have pre: "gc_static_shapes (self_generation_config example_lm)
        \<and> gc_use_cache (self_generation_config example_lm)
        \<and> gc_reuse_cache (self_generation_config example_lm)
        \<and> find_bucket example_lm (int (t_seq example_batch)) = Inr 16"
    using example_lm_flags fb by simp
  have full: "allocate_kv_cache full_runtime (t_bs example_batch) (16 + 1) 16
       = Some (FrameworkError ''out of memory'')"
    by (simp add: full_runtime_def)
  have ok: "allocate_kv_cache example_runtime (t_bs example_batch) (16 + 1) 16 = None"
    by (simp add: example_runtime_def)
  from k [of full_runtime, THEN conjunct1, rule_format, OF pre, THEN conjunct1, rule_format, OF full]
  have a: "model_call full_runtime example_lm example_batch
       = ([AllocateKvCache 1 17 16], Inl (FrameworkError ''out of memory''))"
    by (simp add: example_batches)
  from k [of example_runtime, THEN conjunct1, rule_format, OF pre, THEN conjunct2, rule_format, OF ok]
  have b: "fst (model_call example_runtime example_lm example_batch)
       = [AllocateKvCache 1 17 16,
          Forward \<lparr> t_bs = 1, t_seq = 16,
                    t_rows = [[11, 12, 13, 0, 0, 0, 0, 0, 0, 0, 0, 0, 0, 0, 0, 0]] \<rparr>
            [(''use_cache'', True)]]"
    using example_padded by (simp add: example_batches example_model_inputs)
  have nd: "\<not> (gc_static_shapes (self_generation_config dynamic_lm)
           \<and> gc_use_cache (self_generation_config dynamic_lm)
           \<and> gc_reuse_cache (self_generation_config dynamic_lm))"
    using dynamic_lm_flags by simp
  from kv_cache_allocation [of dynamic_lm example_batch full_runtime, THEN conjunct2, THEN conjunct2,
      rule_format, OF nd]
  have c: "filter is_allocation (fst (model_call full_runtime dynamic_lm example_batch)) = []"
    by blast
  from pre full a ok b dynamic_lm_flags c show ?thesis by simp
qed

text \<open>
  Claim C9.  With static-shape mode off, the only call \<open>_model_call\<close> makes on the
  model is the forward call on the input tensor as given, with no bucket selected, no cache
  allocated and no padding; the logits returned are those of the model with the dtype set
  to float32, and an exception of the model is passed on.
\<close>

theorem model_call_dynamic:
  assumes "\<not> gc_static_shapes (self_generation_config self)"
  shows "model_call rt self inps =
           ([Forward inps (self_model_inputs self)],
            case forward rt [] inps (self_model_inputs self) of
              Inl e \<Rightarrow> Inl e
            | Inr logits \<Rightarrow> Inr (logits\<lparr> l_dtype := Float32 \<rparr>))"
  using assms
  by (simp add: model_call_def run_model_def bindE_def to_dtype_def Let_def)

theorem model_call_dynamic_witness:
  "\<not> gc_static_shapes (self_generation_config dynamic_lm)
   \<and> model_call example_runtime dynamic_lm example_batch =
       ([Forward example_batch [(''use_cache'', True)]],
        Inr \<lparr> l_bs = 1, l_seq = 3, l_vocab = 2, l_dtype = Float32,
              l_data = [[[11, 12], [12, 13], [13, 14]]] \<rparr>)"
proof -
  have mi: "self_model_inputs dynamic_lm = [(''use_cache'', True)]"
    by (simp add: dynamic_lm_def new_wrapper_def build_model_inputs_def unoptimized_model_def
        gpt2_model_def gpt2_generation_config_def)
  have f: "forward example_runtime [] example_batch [(''use_cache'', True)] =
        Inr \<lparr> l_bs = 1, l_seq = 3, l_vocab = 2, l_dtype = BFloat16,
              l_data = [[[11, 12], [12, 13], [13, 14]]] \<rparr>"
    by (simp add: example_runtime_def example_batch_def)
  show ?thesis
    using model_call_dynamic [OF dynamic_lm_flags, of example_runtime example_batch]
      dynamic_lm_flags
    by (simp add: mi f)
qed

section \<open>The pad token after \<open>setup_tokenizer\<close>\<close>

lemma bindE_Inr: "bindE m f = Inr y \<longleftrightarrow> (\<exists>x. m = Inr x \<and> f x = Inr y)"
  by (cases m) (simp_all add: bindE_def)

lemma decode_special_tokens_pad:
  "decode_special_tokens lib pid t = Inr t' \<Longrightarrow> pad_token t' \<noteq> None"
  by (auto simp: decode_special_tokens_def bindE_Inr Let_def)

lemma llama_pad_token_id_result:
  assumes "llama_pad_token_id g = Inr g'"
  shows "gc_eos_token_id g' = gc_eos_token_id g
    \<and> (gc_pad_token_id g = IdNone \<longrightarrow>
         (\<forall>i. gc_eos_token_id g = IdInt i \<longrightarrow> gc_pad_token_id g' = IdInt i)
         \<and> (\<forall>xs. gc_eos_token_id g = IdList xs \<longrightarrow> xs \<noteq> [] \<and> gc_pad_token_id g' = IdInt (hd xs)))"
  using assms
  by (auto simp: llama_pad_token_id_def bindE_Inr py_first_def split: if_splits py_id.splits list.splits)

lemma setup_tokenizer_llama_result:
  assumes "setup_tokenizer_llama lib t m = Inr (t', m')"
  shows "pad_token t' \<noteq> None \<and> config m' = config m
    \<and> llama_pad_token_id (generation_config m) = Inr (generation_config m')"
  using assms
  by (auto simp: setup_tokenizer_llama_def bindE_Inr dest: decode_special_tokens_pad)

lemma setup_tokenizer_persimmon_result:
  assumes "setup_tokenizer_persimmon lib t m = Inr (t', m')"
  shows "pad_token t' \<noteq> None \<and> config m' = config m"
  using assms
  by (auto simp: setup_tokenizer_persimmon_def bindE_Inr Let_def dest: decode_special_tokens_pad)

lemma minicpm3_result:
  assumes "minicpm3_eos_token_id m = Inr m'"
  shows "config m' = config m
    \<and> gc_pad_token_id (generation_config m') = gc_pad_token_id (generation_config m)"
  using assms
  by (auto simp: minicpm3_eos_token_id_def bindE_Inr split: py_id.splits if_splits)

lemma default_pad_token_result:
  assumes "default_pad_token (t, m) = (t', m')"
  shows "(pad_token t' = None \<longrightarrow> eos_token t' = None)
    \<and> (pad_token t \<noteq> None \<longrightarrow> t' = t \<and> m' = m)
    \<and> (pad_token t = None \<longrightarrow> pad_token t' = eos_token t \<and> eos_token t' = eos_token t
          \<and> gc_pad_token_id (generation_config m') = gc_eos_token_id (generation_config m'))"
  using assms by (auto simp: default_pad_token_def split: if_splits)

lemma decode_special_tokens_result:
  assumes "decode_special_tokens lib pid te = Inr t'"
  shows "\<exists>sp p. token_of_id lib te pid = Inr sp
           \<and> decode lib (te\<lparr>pad_token := sp\<rparr>) (id_of_token lib (te\<lparr>pad_token := sp\<rparr>) sp) = Inr p
           \<and> pad_token t' = Some p"
  using assms by (auto simp: decode_special_tokens_def bindE_Inr Let_def)

lemma llama_pad_token_id_frame:
  assumes "llama_pad_token_id g = Inr g'"
  shows "gc_bos_token_id g' = gc_bos_token_id g \<and> gc_eos_token_id g' = gc_eos_token_id g"
  using assms
  by (auto simp: llama_pad_token_id_def bindE_Inr split: if_splits py_id.splits)

lemma llama_eos_token_cong:
  "gc_eos_token_id g' = gc_eos_token_id g \<Longrightarrow> llama_eos_token lib g' t = llama_eos_token lib g t"
  by (simp add: llama_eos_token_def)

lemma setup_tokenizer_llama_steps:
  assumes "setup_tokenizer_llama lib t1 m = Inr (t2, m2)"
  shows "\<exists>g sb te. llama_pad_token_id (generation_config m) = Inr g
           \<and> token_of_id lib t1 (gc_bos_token_id (generation_config m)) = Inr sb
           \<and> llama_eos_token lib (generation_config m) (t1\<lparr>bos_token := sb\<rparr>) = Inr te
           \<and> decode_special_tokens lib (gc_pad_token_id g) te = Inr t2
           \<and> generation_config m2 = g"
proof -
  from assms obtain g sb te where
    g: "llama_pad_token_id (generation_config m) = Inr g"
    and sb: "token_of_id lib t1 (gc_bos_token_id g) = Inr sb"
    and te: "llama_eos_token lib g (t1\<lparr>bos_token := sb\<rparr>) = Inr te"
    and d: "decode_special_tokens lib (gc_pad_token_id g) te = Inr t2"
    and m2: "m2 = m\<lparr>generation_config := g\<rparr>"
    by (auto simp: setup_tokenizer_llama_def bindE_Inr)
  note fr = llama_pad_token_id_frame [OF g]
  from sb fr have sb': "token_of_id lib t1 (gc_bos_token_id (generation_config m)) = Inr sb" by simp
  from te fr have te': "llama_eos_token lib (generation_config m) (t1\<lparr>bos_token := sb\<rparr>) = Inr te"
    by (simp add: llama_eos_token_cong [of g "generation_config m"])
  from m2 have "generation_config m2 = g" by simp
  with g sb' te' d show ?thesis
    by - (rule exI [of _ g], rule exI [of _ sb], rule exI [of _ te], simp)
qed

lemma setup_tokenizer_persimmon_steps:
  assumes "setup_tokenizer_persimmon lib t1 m = Inr (t2, m2)"
  shows "\<exists>sb se. token_of_id lib t1 (gc_bos_token_id (generation_config m)) = Inr sb
           \<and> token_of_id lib (t1\<lparr>bos_token := sb\<rparr>) (gc_eos_token_id (generation_config m)) = Inr se
           \<and> decode_special_tokens lib (gc_eos_token_id (generation_config m))
                (t1\<lparr>bos_token := sb, eos_token := se\<rparr>) = Inr t2
           \<and> gc_pad_token_id (generation_config m2) = gc_eos_token_id (generation_config m)"
  using assms
  by (auto simp: setup_tokenizer_persimmon_def bindE_Inr Let_def)

lemma setup_tokenizer_parts:
  assumes "setup_tokenizer lib a m = Inr (t, m')"
  obtains t0 t2 m2 t3 m3 m4 where
    "from_pretrained lib (model_name_or_path a)
       \<lparr> kw_revision = model_revision a, kw_token = token a,
         kw_trust_remote_code = trust_remote_code a,
         kw_add_prefix_space =
           (if bad_words a \<noteq> None \<or> force_words a \<noteq> None then Some True else None) \<rparr> = Inr t0"
    "(if model_type (config m) = ''llama''
      then setup_tokenizer_llama lib
             (if \<not> is_encoder_decoder (config m) then t0\<lparr>padding_side := ''left''\<rparr> else t0) m
      else Inr (if \<not> is_encoder_decoder (config m) then t0\<lparr>padding_side := ''left''\<rparr> else t0, m))
       = Inr (t2, m2)"
    "(if model_type (config m2) = ''persimmon'' then setup_tokenizer_persimmon lib t2 m2
      else Inr (t2, m2)) = Inr (t3, m3)"
    "minicpm3_eos_token_id m3 = Inr m4"
    "default_pad_token (t3, m4) = (t, m')"
proof -
  from assms obtain t0 r where
    fp: "from_pretrained lib (model_name_or_path a)
       \<lparr> kw_revision = model_revision a, kw_token = token a,
         kw_trust_remote_code = trust_remote_code a,
         kw_add_prefix_space =
           (if bad_words a \<noteq> None \<or> force_words a \<noteq> None then Some True else None) \<rparr> = Inr t0"
    and r: "r = (if \<not> is_encoder_decoder (config m) then t0\<lparr>padding_side := ''left''\<rparr> else t0)"
    and k1: "bindE (if model_type (config m) = ''llama'' then setup_tokenizer_llama lib r m
                    else Inr (r, m))
               (\<lambda>(t2, m2).
                  bindE (if model_type (config m2) = ''persimmon''
                         then setup_tokenizer_persimmon lib t2 m2 else Inr (t2, m2))
                    (\<lambda>(t3, m3). bindE (minicpm3_eos_token_id m3)
                                   (\<lambda>m4. Inr (default_pad_token (t3, m4))))) = Inr (t, m')"
    unfolding setup_tokenizer_def Let_def bindE_Inr [of "from_pretrained lib _ _"]
    by blast
  from k1 obtain p2 where
    s2: "(if model_type (config m) = ''llama'' then setup_tokenizer_llama lib r m
          else Inr (r, m)) = Inr p2"
    and k2: "(case p2 of (t2, m2) \<Rightarrow>
                  bindE (if model_type (config m2) = ''persimmon''
                         then setup_tokenizer_persimmon lib t2 m2 else Inr (t2, m2))
                    (\<lambda>(t3, m3). bindE (minicpm3_eos_token_id m3)
                                   (\<lambda>m4. Inr (default_pad_token (t3, m4))))) = Inr (t, m')"
    unfolding bindE_Inr by blast
  obtain t2 m2 where p2: "p2 = (t2, m2)" by (cases p2)
  from k2 [unfolded p2 prod.case bindE_Inr] obtain p3 where
    s3: "(if model_type (config m2) = ''persimmon''
          then setup_tokenizer_persimmon lib t2 m2 else Inr (t2, m2)) = Inr p3"
    and k3: "(case p3 of (t3, m3) \<Rightarrow> bindE (minicpm3_eos_token_id m3)
                                   (\<lambda>m4. Inr (default_pad_token (t3, m4)))) = Inr (t, m')"
    by blast
  obtain t3 m3 where p3: "p3 = (t3, m3)" by (cases p3)
  from k3 [unfolded p3 prod.case bindE_Inr] obtain m4 where
    s4: "minicpm3_eos_token_id m3 = Inr m4"
    and s5: "default_pad_token (t3, m4) = (t, m')" by auto
  show thesis
    by (rule that [OF fp s2 [unfolded p2 r] s3 [unfolded p3] s4 s5])
qed

lemma example_lib_calls:
  "from_pretrained example_lib n k = Inr gpt2_tokenizer"
  "token_of_id example_lib x (IdInt 1) = Inr (Some ''<bos>'')"
  "token_of_id example_lib x (IdInt 2) = Inr (Some ''<eos>'')"
  "decode example_lib x (id_of_token example_lib y (Some ''<bos>'')) = Inr ''<bos>''"
  "decode example_lib x (id_of_token example_lib y (Some ''<eos>'')) = Inr ''<eos>''"
  by (simp_all add: example_lib_def)

lemma example_tokenizers_ok:
  "\<not> isl (setup_tokenizer example_lib Args llama_pad_model)"
  "\<not> isl (setup_tokenizer example_lib Args llama_model)"
  "\<not> isl (setup_tokenizer example_lib Args gpt2_model)"
  by (simp_all add: setup_tokenizer_def example_lib_def bindE_def Let_def
      llama_pad_model_def llama_model_def gpt2_model_def gpt2_tokenizer_def
      minicpm3_eos_token_id_def default_pad_token_def
      gpt2_generation_config_def setup_tokenizer_llama_def llama_pad_token_id_def
      llama_eos_token_def decode_special_tokens_def py_first_def)

lemma example_models:
  "model_type (config llama_pad_model) = ''llama''"
  "gc_pad_token_id (generation_config llama_pad_model) = IdInt 1"
  "model_type (config llama_model) = ''llama''"
  "gc_pad_token_id (generation_config llama_model) = IdNone"
  "gc_eos_token_id (generation_config llama_model) = IdList [2, 7]"
  "model_type (config gpt2_model) = ''gpt2''"
  "pad_token gpt2_tokenizer = None"
  "eos_token gpt2_tokenizer = Some ''<eos>''"
  by (simp_all add: llama_pad_model_def llama_model_def gpt2_model_def gpt2_tokenizer_def
      gpt2_generation_config_def)

lemma bare_setup_tokenizer:
  "setup_tokenizer bare_lib Args gpt2_model =
     Inr (bare_tokenizer\<lparr> padding_side := ''left'' \<rparr>,
          gpt2_model\<lparr> generation_config :=
            gpt2_generation_config\<lparr> gc_pad_token_id := IdInt 50256 \<rparr> \<rparr>)"
  by (simp add: setup_tokenizer_def bare_lib_def example_lib_def bindE_def Let_def
      gpt2_model_def bare_tokenizer_def minicpm3_eos_token_id_def default_pad_token_def
      gpt2_generation_config_def)

text \<open>
  Claim C8, as amended.  Let \<open>setup_tokenizer\<close> return, and let \<open>t0\<close> be the tokenizer
  loaded with the keyword arguments built from \<open>args\<close>, \<open>t1\<close> the same with its
  padding side set to the left unless the model is an encoder-decoder.  The pad token
  returned is \<open>None\<close> only if the EOS token returned is \<open>None\<close> as well.  For a model
  family other than llama and persimmon, the pad token of \<open>t0\<close> is kept when there is
  one; when there is none, the pad token becomes the EOS token of \<open>t0\<close> and the model's
  \<open>generation_config.pad_token_id\<close> becomes its \<open>eos_token_id\<close>.  For llama and
  persimmon the pad token is never \<open>None\<close>: \<open>generation_config.pad_token_id\<close> is
  assigned to the tokenizer's pad token id (after its BOS and EOS token ids), and the pad
  token is the text decoded from the pad token id read back.  For llama that
  \<open>pad_token_id\<close> is the model's own when it is not \<open>None\<close>, and otherwise the
  \<open>eos_token_id\<close>, or its first element when it is a list; for persimmon it is the
  \<open>eos_token_id\<close>.
\<close>

theorem setup_tokenizer_pad_token:
  assumes ret: "setup_tokenizer lib a m = Inr (t, m')"
      and kw: "kw = \<lparr> kw_revision = model_revision a, kw_token = token a,
                      kw_trust_remote_code = trust_remote_code a,
                      kw_add_prefix_space =
                        (if bad_words a \<noteq> None \<or> force_words a \<noteq> None
                         then Some True else None) \<rparr>"
  shows "\<exists>t0 t1.
      from_pretrained lib (model_name_or_path a) kw = Inr t0
    \<and> t1 = (if \<not> is_encoder_decoder (config m) then t0\<lparr>padding_side := ''left''\<rparr> else t0)
    \<and> (pad_token t = None \<longrightarrow> eos_token t = None)
    \<and> (model_type (config m) \<noteq> ''llama'' \<and> model_type (config m) \<noteq> ''persimmon'' \<longrightarrow>
          (pad_token t0 \<noteq> None \<longrightarrow> pad_token t = pad_token t0)
          \<and> (pad_token t0 = None \<longrightarrow>
                pad_token t = eos_token t0
                \<and> gc_pad_token_id (generation_config m') = gc_eos_token_id (generation_config m')))
    \<and> (model_type (config m) = ''llama'' \<longrightarrow>
          (\<exists>sb te sp p.
              token_of_id lib t1 (gc_bos_token_id (generation_config m)) = Inr sb
            \<and> llama_eos_token lib (generation_config m) (t1\<lparr>bos_token := sb\<rparr>) = Inr te
            \<and> token_of_id lib te (gc_pad_token_id (generation_config m')) = Inr sp
            \<and> decode lib (te\<lparr>pad_token := sp\<rparr>) (id_of_token lib (te\<lparr>pad_token := sp\<rparr>) sp) = Inr p
            \<and> pad_token t = Some p)
          \<and> (gc_pad_token_id (generation_config m) \<noteq> IdNone \<longrightarrow>
                gc_pad_token_id (generation_config m') = gc_pad_token_id (generation_config m))
          \<and> (gc_pad_token_id (generation_config m) = IdNone \<longrightarrow>
                (\<forall>i. gc_eos_token_id (generation_config m) = IdInt i
                      \<longrightarrow> gc_pad_token_id (generation_config m') = IdInt i)
                \<and> (\<forall>xs. gc_eos_token_id (generation_config m) = IdList xs
                      \<longrightarrow> xs \<noteq> [] \<and> gc_pad_token_id (generation_config m') = IdInt (hd xs))))
    \<and> (model_type (config m) = ''persimmon'' \<longrightarrow>
          (\<exists>sb se sp p.
              token_of_id lib t1 (gc_bos_token_id (generation_config m)) = Inr sb
            \<and> token_of_id lib (t1\<lparr>bos_token := sb\<rparr>) (gc_eos_token_id (generation_config m)) = Inr se
            \<and> token_of_id lib (t1\<lparr>bos_token := sb, eos_token := se\<rparr>)
                 (gc_pad_token_id (generation_config m')) = Inr sp
            \<and> decode lib (t1\<lparr>bos_token := sb, eos_token := se, pad_token := sp\<rparr>)
                 (id_of_token lib (t1\<lparr>bos_token := sb, eos_token := se, pad_token := sp\<rparr>) sp) = Inr p
            \<and> pad_token t = Some p)
          \<and> gc_pad_token_id (generation_config m') = gc_eos_token_id (generation_config m))"
proof -
  from ret obtain t0 t2 m2 t3 m3 m4 where
    fp: "from_pretrained lib (model_name_or_path a) kw = Inr t0"
    and s2: "(if model_type (config m) = ''llama''
      then setup_tokenizer_llama lib
             (if \<not> is_encoder_decoder (config m) then t0\<lparr>padding_side := ''left''\<rparr> else t0) m
      else Inr (if \<not> is_encoder_decoder (config m) then t0\<lparr>padding_side := ''left''\<rparr> else t0, m))
       = Inr (t2, m2)"
    and s3: "(if model_type (config m2) = ''persimmon'' then setup_tokenizer_persimmon lib t2 m2
      else Inr (t2, m2)) = Inr (t3, m3)"
    and s4: "minicpm3_eos_token_id m3 = Inr m4"
    and s5: "default_pad_token (t3, m4) = (t, m')"
    unfolding kw by (rule setup_tokenizer_parts)
  define t1 where "t1 = (if \<not> is_encoder_decoder (config m) then t0\<lparr>padding_side := ''left''\<rparr> else t0)"
  note s2' = s2 [folded t1_def]
  note d = default_pad_token_result [OF s5]
  note mc = minicpm3_result [OF s4]
  have c2: "config m2 = config m"
    using s2 by (auto split: if_splits dest: setup_tokenizer_llama_result)
  have one: "pad_token t = None \<longrightarrow> eos_token t = None" using d by blast
  have other: "model_type (config m) \<noteq> ''llama'' \<and> model_type (config m) \<noteq> ''persimmon'' \<longrightarrow>
          (pad_token t0 \<noteq> None \<longrightarrow> pad_token t = pad_token t0)
          \<and> (pad_token t0 = None \<longrightarrow>
                pad_token t = eos_token t0
                \<and> gc_pad_token_id (generation_config m') = gc_eos_token_id (generation_config m'))"
  proof
    assume fam: "model_type (config m) \<noteq> ''llama'' \<and> model_type (config m) \<noteq> ''persimmon''"
    with s2' have t2: "t2 = t1" by auto
    from fam c2 s3 have t3: "t3 = t2" by simp
    have p: "pad_token t3 = pad_token t0" and e: "eos_token t3 = eos_token t0"
      by (simp_all add: t3 t2 t1_def)
    show "(pad_token t0 \<noteq> None \<longrightarrow> pad_token t = pad_token t0)
          \<and> (pad_token t0 = None \<longrightarrow> pad_token t = eos_token t0
                  \<and> gc_pad_token_id (generation_config m')
                      = gc_eos_token_id (generation_config m'))"
      using d p e by auto
  qed
  have llama: "model_type (config m) = ''llama'' \<longrightarrow>
          (\<exists>sb te sp p.
              token_of_id lib t1 (gc_bos_token_id (generation_config m)) = Inr sb
            \<and> llama_eos_token lib (generation_config m) (t1\<lparr>bos_token := sb\<rparr>) = Inr te
            \<and> token_of_id lib te (gc_pad_token_id (generation_config m')) = Inr sp
            \<and> decode lib (te\<lparr>pad_token := sp\<rparr>) (id_of_token lib (te\<lparr>pad_token := sp\<rparr>) sp) = Inr p
            \<and> pad_token t = Some p)
          \<and> (gc_pad_token_id (generation_config m) \<noteq> IdNone \<longrightarrow>
                gc_pad_token_id (generation_config m') = gc_pad_token_id (generation_config m))
          \<and> (gc_pad_token_id (generation_config m) = IdNone \<longrightarrow>
                (\<forall>i. gc_eos_token_id (generation_config m) = IdInt i
                      \<longrightarrow> gc_pad_token_id (generation_config m') = IdInt i)
                \<and> (\<forall>xs. gc_eos_token_id (generation_config m) = IdList xs
                      \<longrightarrow> xs \<noteq> [] \<and> gc_pad_token_id (generation_config m') = IdInt (hd xs)))"
  proof
    assume l: "model_type (config m) = ''llama''"
    with s2' have sl: "setup_tokenizer_llama lib t1 m = Inr (t2, m2)" by simp
    from setup_tokenizer_llama_steps [OF sl] obtain g sb te where
      g: "llama_pad_token_id (generation_config m) = Inr g"
      and sb: "token_of_id lib t1 (gc_bos_token_id (generation_config m)) = Inr sb"
      and te: "llama_eos_token lib (generation_config m) (t1\<lparr>bos_token := sb\<rparr>) = Inr te"
      and dc: "decode_special_tokens lib (gc_pad_token_id g) te = Inr t2"
      and g2: "generation_config m2 = g"
      by (elim exE conjE) (rule that)
    from decode_special_tokens_result [OF dc] obtain sp p where
      sp: "token_of_id lib te (gc_pad_token_id g) = Inr sp"
      and p: "decode lib (te\<lparr>pad_token := sp\<rparr>) (id_of_token lib (te\<lparr>pad_token := sp\<rparr>) sp) = Inr p"
      and pt: "pad_token t2 = Some p"
      by (elim exE conjE) (rule that)
    from l c2 s3 have 3: "t3 = t2" "m3 = m2" by simp_all
    from d pt 3 have fin: "t = t2" "m' = m4" by simp_all
    from mc 3 g2 fin have pid: "gc_pad_token_id (generation_config m') = gc_pad_token_id g" by simp
    have a: "\<exists>sb te sp p.
              token_of_id lib t1 (gc_bos_token_id (generation_config m)) = Inr sb
            \<and> llama_eos_token lib (generation_config m) (t1\<lparr>bos_token := sb\<rparr>) = Inr te
            \<and> token_of_id lib te (gc_pad_token_id (generation_config m')) = Inr sp
            \<and> decode lib (te\<lparr>pad_token := sp\<rparr>) (id_of_token lib (te\<lparr>pad_token := sp\<rparr>) sp) = Inr p
            \<and> pad_token t = Some p"
      using sb te sp p pt fin pid
      by - (rule exI [of _ sb], rule exI [of _ te], rule exI [of _ sp], rule exI [of _ p], simp)
    have b: "gc_pad_token_id (generation_config m) \<noteq> IdNone \<longrightarrow>
                gc_pad_token_id (generation_config m') = gc_pad_token_id (generation_config m)"
      using g pid by (auto simp: llama_pad_token_id_def)
    have c: "gc_pad_token_id (generation_config m) = IdNone \<longrightarrow>
                (\<forall>i. gc_eos_token_id (generation_config m) = IdInt i
                      \<longrightarrow> gc_pad_token_id (generation_config m') = IdInt i)
                \<and> (\<forall>xs. gc_eos_token_id (generation_config m) = IdList xs
                      \<longrightarrow> xs \<noteq> [] \<and> gc_pad_token_id (generation_config m') = IdInt (hd xs))"
      using llama_pad_token_id_result [OF g] pid by simp
    from a b c show "(\<exists>sb te sp p.
              token_of_id lib t1 (gc_bos_token_id (generation_config m)) = Inr sb
            \<and> llama_eos_token lib (generation_config m) (t1\<lparr>bos_token := sb\<rparr>) = Inr te
            \<and> token_of_id lib te (gc_pad_token_id (generation_config m')) = Inr sp
            \<and> decode lib (te\<lparr>pad_token := sp\<rparr>) (id_of_token lib (te\<lparr>pad_token := sp\<rparr>) sp) = Inr p
            \<and> pad_token t = Some p)
          \<and> (gc_pad_token_id (generation_config m) \<noteq> IdNone \<longrightarrow>
                gc_pad_token_id (generation_config m') = gc_pad_token_id (generation_config m))
          \<and> (gc_pad_token_id (generation_config m) = IdNone \<longrightarrow>
                (\<forall>i. gc_eos_token_id (generation_config m) = IdInt i
                      \<longrightarrow> gc_pad_token_id (generation_config m') = IdInt i)
                \<and> (\<forall>xs. gc_eos_token_id (generation_config m) = IdList xs
                      \<longrightarrow> xs \<noteq> [] \<and> gc_pad_token_id (generation_config m') = IdInt (hd xs)))"
      by (intro conjI)
  qed
  have persimmon: "model_type (config m) = ''persimmon'' \<longrightarrow>
          (\<exists>sb se sp p.
              token_of_id lib t1 (gc_bos_token_id (generation_config m)) = Inr sb
            \<and> token_of_id lib (t1\<lparr>bos_token := sb\<rparr>) (gc_eos_token_id (generation_config m)) = Inr se
            \<and> token_of_id lib (t1\<lparr>bos_token := sb, eos_token := se\<rparr>)
                 (gc_pad_token_id (generation_config m')) = Inr sp
            \<and> decode lib (t1\<lparr>bos_token := sb, eos_token := se, pad_token := sp\<rparr>)
                 (id_of_token lib (t1\<lparr>bos_token := sb, eos_token := se, pad_token := sp\<rparr>) sp) = Inr p
            \<and> pad_token t = Some p)
          \<and> gc_pad_token_id (generation_config m') = gc_eos_token_id (generation_config m)"
  proof
    assume ps: "model_type (config m) = ''persimmon''"
    with s2' have 2: "t2 = t1" "m2 = m" by auto
    from ps 2 s3 have sp3: "setup_tokenizer_persimmon lib t1 m = Inr (t3, m3)" by simp
    from setup_tokenizer_persimmon_steps [OF sp3] obtain sb se where
      sb: "token_of_id lib t1 (gc_bos_token_id (generation_config m)) = Inr sb"
      and se: "token_of_id lib (t1\<lparr>bos_token := sb\<rparr>) (gc_eos_token_id (generation_config m)) = Inr se"
      and dc: "decode_special_tokens lib (gc_eos_token_id (generation_config m))
                (t1\<lparr>bos_token := sb, eos_token := se\<rparr>) = Inr t3"
      and g3: "gc_pad_token_id (generation_config m3) = gc_eos_token_id (generation_config m)"
      by (elim exE conjE) (rule that)
    from decode_special_tokens_result [OF dc] obtain sp p where
      sp: "token_of_id lib (t1\<lparr>bos_token := sb, eos_token := se\<rparr>)
             (gc_eos_token_id (generation_config m)) = Inr sp"
      and p: "decode lib (t1\<lparr>bos_token := sb, eos_token := se, pad_token := sp\<rparr>)
                 (id_of_token lib (t1\<lparr>bos_token := sb, eos_token := se, pad_token := sp\<rparr>) sp) = Inr p"
      and pt: "pad_token t3 = Some p"
      by (elim exE conjE) (rule that)
    from d pt have fin: "t = t3" "m' = m4" by simp_all
    from mc g3 fin have pid: "gc_pad_token_id (generation_config m') = gc_eos_token_id (generation_config m)"
      by simp
    have a: "\<exists>sb se sp p.
              token_of_id lib t1 (gc_bos_token_id (generation_config m)) = Inr sb
            \<and> token_of_id lib (t1\<lparr>bos_token := sb\<rparr>) (gc_eos_token_id (generation_config m)) = Inr se
            \<and> token_of_id lib (t1\<lparr>bos_token := sb, eos_token := se\<rparr>)
                 (gc_pad_token_id (generation_config m')) = Inr sp
            \<and> decode lib (t1\<lparr>bos_token := sb, eos_token := se, pad_token := sp\<rparr>)
                 (id_of_token lib (t1\<lparr>bos_token := sb, eos_token := se, pad_token := sp\<rparr>) sp) = Inr p
            \<and> pad_token t = Some p"
      using sb se sp p pt fin pid
      by - (rule exI [of _ sb], rule exI [of _ se], rule exI [of _ sp], rule exI [of _ p], simp)
    from a pid show "(\<exists>sb se sp p.
              token_of_id lib t1 (gc_bos_token_id (generation_config m)) = Inr sb
            \<and> token_of_id lib (t1\<lparr>bos_token := sb\<rparr>) (gc_eos_token_id (generation_config m)) = Inr se
            \<and> token_of_id lib (t1\<lparr>bos_token := sb, eos_token := se\<rparr>)
                 (gc_pad_token_id (generation_config m')) = Inr sp
            \<and> decode lib (t1\<lparr>bos_token := sb, eos_token := se, pad_token := sp\<rparr>)
                 (id_of_token lib (t1\<lparr>bos_token := sb, eos_token := se, pad_token := sp\<rparr>) sp) = Inr p
            \<and> pad_token t = Some p)
          \<and> gc_pad_token_id (generation_config m') = gc_eos_token_id (generation_config m)"
      by (intro conjI)
  qed
  show ?thesis
    apply (rule exI [of _ t0], rule exI [of _ t1])
    apply (intro conjI)
         apply (rule fp)
        apply (rule t1_def)
       apply (rule one)
      apply (rule other)
     apply (rule llama)
    apply (rule persimmon)
    done
qed

theorem setup_tokenizer_pad_token_witness:
  "setup_tokenizer example_lib Args llama_pad_model
     = Inr (projr (setup_tokenizer example_lib Args llama_pad_model))
   \<and> model_type (config llama_pad_model) = ''llama''
   \<and> gc_pad_token_id (generation_config llama_pad_model) = IdInt 1
   \<and> pad_token (fst (projr (setup_tokenizer example_lib Args llama_pad_model))) = Some ''<bos>''
   \<and> setup_tokenizer example_lib Args llama_model
     = Inr (projr (setup_tokenizer example_lib Args llama_model))
   \<and> model_type (config llama_model) = ''llama''
   \<and> gc_pad_token_id (generation_config llama_model) = IdNone
   \<and> gc_eos_token_id (generation_config llama_model) = IdList [2, 7]
   \<and> gc_pad_token_id (generation_config (snd (projr (setup_tokenizer example_lib Args llama_model))))
       = IdInt 2
   \<and> pad_token (fst (projr (setup_tokenizer example_lib Args llama_model))) = Some ''<eos>''
   \<and> setup_tokenizer example_lib Args gpt2_model
     = Inr (projr (setup_tokenizer example_lib Args gpt2_model))
   \<and> model_type (config gpt2_model) = ''gpt2''
   \<and> pad_token (fst (projr (setup_tokenizer example_lib Args gpt2_model))) = Some ''<eos>''"
proof -
  define kw where "kw = \<lparr> kw_revision = model_revision Args, kw_token = token Args,
                      kw_trust_remote_code = trust_remote_code Args,
                      kw_add_prefix_space =
                        (if bad_words Args \<noteq> None \<or> force_words Args \<noteq> None
                         then Some True else None) \<rparr>"
  have r1: "setup_tokenizer example_lib Args llama_pad_model
     = Inr (fst (projr (setup_tokenizer example_lib Args llama_pad_model)),
            snd (projr (setup_tokenizer example_lib Args llama_pad_model)))"
    using example_tokenizers_ok(1)
    by (cases "setup_tokenizer example_lib Args llama_pad_model") simp_all
  have r2: "setup_tokenizer example_lib Args llama_model
     = Inr (fst (projr (setup_tokenizer example_lib Args llama_model)),
            snd (projr (setup_tokenizer example_lib Args llama_model)))"
    using example_tokenizers_ok(2)
    by (cases "setup_tokenizer example_lib Args llama_model") simp_all
  have r3: "setup_tokenizer example_lib Args gpt2_model
     = Inr (fst (projr (setup_tokenizer example_lib Args gpt2_model)),
            snd (projr (setup_tokenizer example_lib Args gpt2_model)))"
    using example_tokenizers_ok(3)
    by (cases "setup_tokenizer example_lib Args gpt2_model") simp_all
  from setup_tokenizer_pad_token [OF r1 kw_def]
  have a: "pad_token (fst (projr (setup_tokenizer example_lib Args llama_pad_model))) = Some ''<bos>''"
    by (auto simp: example_models example_lib_calls)
  from setup_tokenizer_pad_token [OF r2 kw_def]
  have b: "gc_pad_token_id (generation_config (snd (projr (setup_tokenizer example_lib Args llama_model))))
       = IdInt 2
     \<and> pad_token (fst (projr (setup_tokenizer example_lib Args llama_model))) = Some ''<eos>''"
    by (auto simp: example_models example_lib_calls)
  from setup_tokenizer_pad_token [OF r3 kw_def]
  have c: "pad_token (fst (projr (setup_tokenizer example_lib Args gpt2_model))) = Some ''<eos>''"
    by (auto simp: example_models example_lib_calls)
  from r1 r2 r3 a b c example_models show ?thesis by simp
qed

text \<open>
  The claim as first stated, that the pad token is never \<open>None\<close> after
  \<open>setup_tokenizer\<close>, fails for a GPT-2 style model whose tokenizer has neither a pad
  token nor an EOS token: the pad token is set to the EOS token, which is \<open>None\<close>.
\<close>

theorem setup_tokenizer_pad_token_counterexample:
  "setup_tokenizer bare_lib Args gpt2_model =
     Inr (bare_tokenizer\<lparr> padding_side := ''left'' \<rparr>,
          gpt2_model\<lparr> generation_config :=
            gpt2_generation_config\<lparr> gc_pad_token_id := IdInt 50256 \<rparr> \<rparr>)
   \<and> pad_token (bare_tokenizer\<lparr> padding_side := ''left'' \<rparr>) = None"
  using bare_setup_tokenizer by (simp add: bare_tokenizer_def)

end
